theory Spec2Isabelle
  imports Main "HOL-Library.Word"
begin

section \<open>The touch driver's device callbacks (device.c)\<close>

text \<open>
  A shallow embedding of \<^verbatim>\<open>src/device.c\<close>: the interrupt service routine
  \<^verbatim>\<open>OnInterruptIsr\<close>, the report dispatcher \<^verbatim>\<open>SendHidReports\<close>, and the power and
  PnP callbacks \<^verbatim>\<open>OnD0Entry\<close>, \<^verbatim>\<open>OnPrepareHardware\<close> and \<^verbatim>\<open>OnReleaseHardware\<close>.

  The callbacks run inside a host framework and call a touch engine, a bus layer and an
  idle coordinator that live in other files. Their effects are made explicit: a
  \<open>world\<close> record holds the device context, the contents of the framework's request
  queues, the requests completed so far, the trace log and the list of calls made to the
  collaborators; every callback takes the world and returns the new one.
\<close>

subsection \<open>Status codes\<close>

type_synonym ntstatus = "32 word"
type_synonym byte = "8 word"

text \<open>
  \<^verbatim>\<open>NT_SUCCESS(Status)\<close> is \<^verbatim>\<open>(((NTSTATUS)(Status)) >= 0)\<close>, with \<^verbatim>\<open>NTSTATUS\<close> a signed
  32-bit integer. The status constants are those of the platform header
  \<^verbatim>\<open>ntstatus.h\<close>.
\<close>

definition NT_SUCCESS :: "ntstatus \<Rightarrow> bool" where
  "NT_SUCCESS Status = (0 \<le> sint Status)"

definition STATUS_SUCCESS :: ntstatus where
  "STATUS_SUCCESS = 0x00000000"

definition STATUS_NO_MORE_ENTRIES :: ntstatus where
  "STATUS_NO_MORE_ENTRIES = 0x8000001A"

definition STATUS_UNSUCCESSFUL :: ntstatus where
  "STATUS_UNSUCCESSFUL = 0xC0000001"

definition STATUS_BUFFER_TOO_SMALL :: ntstatus where
  "STATUS_BUFFER_TOO_SMALL = 0xC0000023"

definition STATUS_INSUFFICIENT_RESOURCES :: ntstatus where
  "STATUS_INSUFFICIENT_RESOURCES = 0xC000009A"

subsection \<open>Data\<close>

text \<open>\<^verbatim>\<open>LARGE_INTEGER\<close>, as the code uses it: two 32-bit halves.\<close>

record large_integer =
  LowPart :: "32 word"
  HighPart :: "32 word"

text \<open>
  \<^verbatim>\<open>CM_PARTIAL_RESOURCE_DESCRIPTOR\<close>: the type tag and the fields of the
  \<^verbatim>\<open>u.Connection\<close> member that the resolver reads. For a descriptor of another type
  the connection fields hold whatever bytes the union has there; the code does not
  read them.
\<close>

record cm_partial_resource_descriptor =
  Type :: byte
  Connection_Class :: byte
  Connection_Type :: byte
  Connection_IdLowPart :: "32 word"
  Connection_IdHighPart :: "32 word"

definition CmResourceTypeConnection :: byte where
  "CmResourceTypeConnection = 132"

definition CM_RESOURCE_CONNECTION_CLASS_GPIO :: byte where
  "CM_RESOURCE_CONNECTION_CLASS_GPIO = 0x01"

definition CM_RESOURCE_CONNECTION_CLASS_SERIAL :: byte where
  "CM_RESOURCE_CONNECTION_CLASS_SERIAL = 0x02"

definition CM_RESOURCE_CONNECTION_TYPE_GPIO_IO :: byte where
  "CM_RESOURCE_CONNECTION_TYPE_GPIO_IO = 0x02"

definition CM_RESOURCE_CONNECTION_TYPE_SERIAL_I2C :: byte where
  "CM_RESOURCE_CONNECTION_TYPE_SERIAL_I2C = 0x01"

text \<open>
  \<^verbatim>\<open>SPB_CONTEXT\<close>: the resource hub ID that \<^verbatim>\<open>OnPrepareHardware\<close> writes, and the
  rest of the structure, which belongs to the bus layer and is opaque here.
\<close>

record 'b spb_context =
  I2cResHubId :: large_integer
  SpbState :: 'b

type_synonym wdfqueue = nat

text \<open>
  \<^verbatim>\<open>DEVICE_EXTENSION\<close>, with the fields that device.c touches. \<open>TouchContext\<close> is the
  touch engine's state behind the \<^verbatim>\<open>VOID*\<close> handle; \<open>PingPongQueue\<close> is a handle to a
  queue whose contents the framework owns.
\<close>

record ('t, 'b) device_extension =
  TouchContext :: 't
  I2CContext :: "'b spb_context"
  InputMode :: byte
  PingPongQueue :: wdfqueue
  ResetGpioId :: large_integer
  HasResetGpio :: bool
  ServiceInterruptsAfterD0Entry :: bool

text \<open>
  A pending HID read request: its identity, what \<^verbatim>\<open>WdfRequestRetrieveOutputBuffer\<close>
  answers for it (a status and, on success, the buffer, whose length is the reported
  length), and the information field that \<^verbatim>\<open>WdfRequestSetInformation\<close> writes.
\<close>

record wdf_request =
  Handle :: nat
  RetrieveOutputBufferStatus :: ntstatus
  OutputBuffer :: "byte list"
  Information :: nat

text \<open>One constructor for each \<^verbatim>\<open>Trace\<close> call of device.c, with the values it prints.\<close>

datatype trace_entry =
    NoRequestPending ntstatus
  | ErrorRetrievingOutputBuffer ntstatus
  | BufferIsTooSmall nat ntstatus
  | ErrorSettingD0 ntstatus
  | ErrorFindingConnection ntstatus
  | ErrorSpbInitialization ntstatus
  | ErrorAllocatingTouchContext ntstatus
  | ErrorStartingTouchDevice ntstatus
  | ErrorStoppingDevice ntstatus
  | ErrorFreeingTouchContext ntstatus

text \<open>The calls that leave device.c, recorded in the order they are made.\<close>

datatype ext_call =
    CallTchServiceInterrupts
  | CallTchWakeDevice
  | CallTchCompleteIdleIrp
  | CallSpbTargetInitialize
  | CallTchAllocateContext
  | CallTchStartDevice
  | CallTchStopDevice
  | CallTchFreeContext
  | CallSpbTargetDeinitialize

record ('t, 'b) world =
  Dev :: "('t, 'b) device_extension"
  Queues :: "wdfqueue \<Rightarrow> wdf_request list"
  Completed :: "(wdf_request \<times> ntstatus) list"
  TraceLog :: "trace_entry list"
  Calls :: "ext_call list"

text \<open>
  The array of reports that the touch engine hands back is a pointer into the engine's
  memory: a function from byte offsets (from that pointer) to bytes. Report \<open>i\<close>
  occupies the \<^verbatim>\<open>sizeof(HID_INPUT_REPORT)\<close> bytes from offset
  \<open>i * sizeof(HID_INPUT_REPORT)\<close>.
\<close>

type_synonym report_memory = "nat \<Rightarrow> byte"

text \<open>
  What the headers and the other source files supply: the size of a HID input report
  (a compile-time constant of \<^verbatim>\<open>controller.h\<close>), and the touch engine, bus layer and
  idle coordinator entry points. Each entry point is a function of the state it is
  handed and returns its status and the state it leaves.
\<close>

record ('t, 'b) env =
  sizeof_HID_INPUT_REPORT :: nat
  TchServiceInterrupts ::
    "'t \<Rightarrow> 'b spb_context \<Rightarrow> byte \<Rightarrow> ntstatus \<times> report_memory \<times> int \<times> 't \<times> 'b spb_context"
  TchWakeDevice :: "'t \<Rightarrow> 'b spb_context \<Rightarrow> ntstatus \<times> 't \<times> 'b spb_context"
  TchStartDevice :: "'t \<Rightarrow> 'b spb_context \<Rightarrow> ntstatus \<times> 't \<times> 'b spb_context"
  TchStopDevice :: "'t \<Rightarrow> 'b spb_context \<Rightarrow> ntstatus \<times> 't \<times> 'b spb_context"
  TchAllocateContext :: "'t \<Rightarrow> ntstatus \<times> 't"
  TchFreeContext :: "'t \<Rightarrow> ntstatus \<times> 't"
  SpbTargetInitialize :: "'b spb_context \<Rightarrow> ntstatus \<times> 'b spb_context"
  SpbTargetDeinitialize :: "'b spb_context \<Rightarrow> 'b spb_context"
  TchCompleteIdleIrp :: "('t, 'b) device_extension \<Rightarrow> ('t, 'b) device_extension"

subsection \<open>Framework operations\<close>

definition Trace :: "trace_entry \<Rightarrow> ('t, 'b) world \<Rightarrow> ('t, 'b) world" where
  "Trace e w = w\<lparr>TraceLog := TraceLog w @ [e]\<rparr>"

text \<open>
  Modelled from the spec: \<^verbatim>\<open>WdfIoQueueRetrieveNextRequest\<close> belongs to the host
  framework. The queue is FIFO by the framework's contract; an empty queue answers with
  a failure status and hands out no request. No request joins a queue while a callback
  of device.c runs.
\<close>

definition WdfIoQueueRetrieveNextRequest ::
  "wdfqueue \<Rightarrow> ('t, 'b) world \<Rightarrow> (ntstatus + wdf_request) \<times> ('t, 'b) world" where
  "WdfIoQueueRetrieveNextRequest Queue w =
     (case Queues w Queue of
        [] \<Rightarrow> (Inl STATUS_NO_MORE_ENTRIES, w)
      | request # rest \<Rightarrow> (Inr request, w\<lparr>Queues := (Queues w)(Queue := rest)\<rparr>))"

definition WdfRequestSetInformation :: "wdf_request \<Rightarrow> nat \<Rightarrow> wdf_request" where
  "WdfRequestSetInformation request n = request\<lparr>Information := n\<rparr>"

definition WdfRequestComplete ::
  "wdf_request \<Rightarrow> ntstatus \<Rightarrow> ('t, 'b) world \<Rightarrow> ('t, 'b) world" where
  "WdfRequestComplete request status w = w\<lparr>Completed := Completed w @ [(request, status)]\<rparr>"

text \<open>\<^verbatim>\<open>RtlCopyMemory(dst, src, n)\<close>: the first \<open>n\<close> bytes of \<open>dst\<close> become those of \<open>src\<close>.\<close>

definition RtlCopyMemory :: "byte list \<Rightarrow> byte list \<Rightarrow> nat \<Rightarrow> byte list" where
  "RtlCopyMemory dst src n = take n src @ drop n dst"

text \<open>The bytes at \<^verbatim>\<open>&hidReportsFromDriver[i]\<close>.\<close>

definition hidReportAt :: "('t, 'b) env \<Rightarrow> report_memory \<Rightarrow> nat \<Rightarrow> byte list" where
  "hidReportAt env hidReportsFromDriver i =
     map hidReportsFromDriver
       [i * sizeof_HID_INPUT_REPORT env ..< i * sizeof_HID_INPUT_REPORT env + sizeof_HID_INPUT_REPORT env]"

subsection \<open>SendHidReports\<close>

text \<open>One pass of the body of the \<^verbatim>\<open>for\<close> loop, at index \<open>i\<close>; \<open>queue\<close> is the
  parameter \<^verbatim>\<open>PingPongQueue\<close>.\<close>

definition SendHidReports_body ::
  "('t, 'b) env \<Rightarrow> wdfqueue \<Rightarrow> report_memory \<Rightarrow> int \<Rightarrow> ('t, 'b) world \<Rightarrow> ('t, 'b) world" where
  "SendHidReports_body env queue hidReportsFromDriver i w =
     (case WdfIoQueueRetrieveNextRequest queue w of
        (Inl status, w1) \<Rightarrow> Trace (NoRequestPending status) w1
      | (Inr request, w1) \<Rightarrow>
          (let status = RetrieveOutputBufferStatus request;
               hidReportRequestBufferLength = length (OutputBuffer request)
           in
             if \<not> NT_SUCCESS status then
               WdfRequestComplete request status
                 (Trace (ErrorRetrievingOutputBuffer status) w1)
             else if hidReportRequestBufferLength < sizeof_HID_INPUT_REPORT env then
               WdfRequestComplete request STATUS_BUFFER_TOO_SMALL
                 (Trace (BufferIsTooSmall hidReportRequestBufferLength STATUS_BUFFER_TOO_SMALL) w1)
             else
               WdfRequestComplete
                 (WdfRequestSetInformation
                    (request\<lparr>OutputBuffer :=
                       RtlCopyMemory (OutputBuffer request)
                         (hidReportAt env hidReportsFromDriver (nat i))
                         (sizeof_HID_INPUT_REPORT env)\<rparr>)
                    (sizeof_HID_INPUT_REPORT env))
                 status w1))"

text \<open>
  \<^verbatim>\<open>for (int i = 0; i < hidReportsCount; i++)\<close>, from index \<open>i\<close> on. Both are C
  \<^verbatim>\<open>int\<close>s; \<open>i\<close> is incremented only while it is below \<open>hidReportsCount\<close>, so the
  increment never overflows and \<open>int\<close> models them.
\<close>

function SendHidReports_loop ::
  "('t, 'b) env \<Rightarrow> wdfqueue \<Rightarrow> report_memory \<Rightarrow> int \<Rightarrow> int \<Rightarrow> ('t, 'b) world \<Rightarrow> ('t, 'b) world" where
  "SendHidReports_loop env queue hidReportsFromDriver hidReportsCount i w =
     (if i < hidReportsCount then
        SendHidReports_loop env queue hidReportsFromDriver hidReportsCount (i + 1)
          (SendHidReports_body env queue hidReportsFromDriver i w)
      else w)"
  by pat_completeness auto
termination
  by (relation "measure (\<lambda>(env, q, m, n, i, w). nat (n - i))") auto

declare SendHidReports_loop.simps [simp del]

definition SendHidReports ::
  "('t, 'b) env \<Rightarrow> wdfqueue \<Rightarrow> report_memory \<Rightarrow> int \<Rightarrow> ('t, 'b) world \<Rightarrow> ('t, 'b) world" where
  "SendHidReports env queue hidReportsFromDriver hidReportsCount w =
     SendHidReports_loop env queue hidReportsFromDriver hidReportsCount 0 w"

subsection \<open>OnInterruptIsr\<close>

definition OnInterruptIsr :: "('t, 'b) env \<Rightarrow> ('t, 'b) world \<Rightarrow> bool \<times> ('t, 'b) world" where
  "OnInterruptIsr env w =
     (let devContext = Dev w;
          (status, hidReportsFromDriver, hidReportsCount, touch, i2c) =
             TchServiceInterrupts env (TouchContext devContext) (I2CContext devContext)
               (InputMode devContext);
          w1 = w\<lparr>Dev := devContext\<lparr>TouchContext := touch, I2CContext := i2c\<rparr>,
                 Calls := Calls w @ [CallTchServiceInterrupts]\<rparr>
      in
        if \<not> NT_SUCCESS status then (True, w1)
        else (True, SendHidReports env (PingPongQueue devContext) hidReportsFromDriver
                      hidReportsCount w1))"

subsection \<open>Calls to the touch engine and the bus layer\<close>

text \<open>
  Each wrapper makes one call on the fields of the device context that device.c passes,
  stores the state the callee leaves, and records the call.
\<close>

definition call_TchWakeDevice :: "('t, 'b) env \<Rightarrow> ('t, 'b) world \<Rightarrow> ntstatus \<times> ('t, 'b) world" where
  "call_TchWakeDevice env w =
     (let (status, touch, i2c) = TchWakeDevice env (TouchContext (Dev w)) (I2CContext (Dev w))
      in (status, w\<lparr>Dev := (Dev w)\<lparr>TouchContext := touch, I2CContext := i2c\<rparr>,
                    Calls := Calls w @ [CallTchWakeDevice]\<rparr>))"

definition call_TchStartDevice :: "('t, 'b) env \<Rightarrow> ('t, 'b) world \<Rightarrow> ntstatus \<times> ('t, 'b) world" where
  "call_TchStartDevice env w =
     (let (status, touch, i2c) = TchStartDevice env (TouchContext (Dev w)) (I2CContext (Dev w))
      in (status, w\<lparr>Dev := (Dev w)\<lparr>TouchContext := touch, I2CContext := i2c\<rparr>,
                    Calls := Calls w @ [CallTchStartDevice]\<rparr>))"

definition call_TchStopDevice :: "('t, 'b) env \<Rightarrow> ('t, 'b) world \<Rightarrow> ntstatus \<times> ('t, 'b) world" where
  "call_TchStopDevice env w =
     (let (status, touch, i2c) = TchStopDevice env (TouchContext (Dev w)) (I2CContext (Dev w))
      in (status, w\<lparr>Dev := (Dev w)\<lparr>TouchContext := touch, I2CContext := i2c\<rparr>,
                    Calls := Calls w @ [CallTchStopDevice]\<rparr>))"

definition call_TchAllocateContext :: "('t, 'b) env \<Rightarrow> ('t, 'b) world \<Rightarrow> ntstatus \<times> ('t, 'b) world" where
  "call_TchAllocateContext env w =
     (let (status, touch) = TchAllocateContext env (TouchContext (Dev w))
      in (status, w\<lparr>Dev := (Dev w)\<lparr>TouchContext := touch\<rparr>,
                    Calls := Calls w @ [CallTchAllocateContext]\<rparr>))"

definition call_TchFreeContext :: "('t, 'b) env \<Rightarrow> ('t, 'b) world \<Rightarrow> ntstatus \<times> ('t, 'b) world" where
  "call_TchFreeContext env w =
     (let (status, touch) = TchFreeContext env (TouchContext (Dev w))
      in (status, w\<lparr>Dev := (Dev w)\<lparr>TouchContext := touch\<rparr>,
                    Calls := Calls w @ [CallTchFreeContext]\<rparr>))"

definition call_SpbTargetInitialize :: "('t, 'b) env \<Rightarrow> ('t, 'b) world \<Rightarrow> ntstatus \<times> ('t, 'b) world" where
  "call_SpbTargetInitialize env w =
     (let (status, i2c) = SpbTargetInitialize env (I2CContext (Dev w))
      in (status, w\<lparr>Dev := (Dev w)\<lparr>I2CContext := i2c\<rparr>,
                    Calls := Calls w @ [CallSpbTargetInitialize]\<rparr>))"

definition call_SpbTargetDeinitialize :: "('t, 'b) env \<Rightarrow> ('t, 'b) world \<Rightarrow> ('t, 'b) world" where
  "call_SpbTargetDeinitialize env w =
     w\<lparr>Dev := (Dev w)\<lparr>I2CContext := SpbTargetDeinitialize env (I2CContext (Dev w))\<rparr>,
       Calls := Calls w @ [CallSpbTargetDeinitialize]\<rparr>"

definition call_TchCompleteIdleIrp :: "('t, 'b) env \<Rightarrow> ('t, 'b) world \<Rightarrow> ('t, 'b) world" where
  "call_TchCompleteIdleIrp env w =
     w\<lparr>Dev := TchCompleteIdleIrp env (Dev w), Calls := Calls w @ [CallTchCompleteIdleIrp]\<rparr>"

subsection \<open>OnD0Entry\<close>

definition OnD0Entry :: "('t, 'b) env \<Rightarrow> ('t, 'b) world \<Rightarrow> ntstatus \<times> ('t, 'b) world" where
  "OnD0Entry env w =
     (let (status, w1) = call_TchWakeDevice env w;
          w2 = (if \<not> NT_SUCCESS status then Trace (ErrorSettingD0 status) w1 else w1);
          w3 = w2\<lparr>Dev := (Dev w2)\<lparr>ServiceInterruptsAfterD0Entry := True\<rparr>\<rparr>;
          w4 = call_TchCompleteIdleIrp env w3
      in (status, w4))"

subsection \<open>OnPrepareHardware\<close>

text \<open>The two tests of the resource loop.\<close>

definition is_serial_i2c :: "cm_partial_resource_descriptor \<Rightarrow> bool" where
  "is_serial_i2c res =
     (Type res = CmResourceTypeConnection \<and>
      Connection_Class res = CM_RESOURCE_CONNECTION_CLASS_SERIAL \<and>
      Connection_Type res = CM_RESOURCE_CONNECTION_TYPE_SERIAL_I2C)"

definition is_gpio_io :: "cm_partial_resource_descriptor \<Rightarrow> bool" where
  "is_gpio_io res =
     (Type res = CmResourceTypeConnection \<and>
      Connection_Class res = CM_RESOURCE_CONNECTION_CLASS_GPIO \<and>
      Connection_Type res = CM_RESOURCE_CONNECTION_TYPE_GPIO_IO)"

text \<open>
  The loop over the translated resource list, from the first descriptor to the last
  (\<^verbatim>\<open>WdfCmResourceListGetDescriptor(list, i)\<close> for \<open>i\<close> from 0 below
  \<^verbatim>\<open>WdfCmResourceListGetCount(list)\<close>). Its state is the local \<open>status\<close> and the device
  context.
\<close>

fun OnPrepareHardware_loop ::
  "cm_partial_resource_descriptor list \<Rightarrow> ntstatus \<times> ('t, 'b) device_extension \<Rightarrow>
     ntstatus \<times> ('t, 'b) device_extension" where
  "OnPrepareHardware_loop [] (status, devContext) = (status, devContext)"
| "OnPrepareHardware_loop (res # rest) (status, devContext) =
     (let (status1, devContext1) =
            (if is_serial_i2c res then
               (STATUS_SUCCESS,
                devContext\<lparr>I2CContext := (I2CContext devContext)
                  \<lparr>I2cResHubId := (I2cResHubId (I2CContext devContext))
                     \<lparr>LowPart := Connection_IdLowPart res,
                      HighPart := Connection_IdHighPart res\<rparr>\<rparr>\<rparr>)
             else (status, devContext));
          devContext2 =
            (if is_gpio_io res then
               devContext1\<lparr>ResetGpioId := (ResetGpioId devContext1)
                             \<lparr>LowPart := Connection_IdLowPart res,
                              HighPart := Connection_IdHighPart res\<rparr>,
                           HasResetGpio := True\<rparr>
             else devContext1)
      in OnPrepareHardware_loop rest (status1, devContext2))"

definition OnPrepareHardware ::
  "('t, 'b) env \<Rightarrow> cm_partial_resource_descriptor list \<Rightarrow> ('t, 'b) world \<Rightarrow>
     ntstatus \<times> ('t, 'b) world" where
  "OnPrepareHardware env FxResourcesTranslated w =
     (let (status, devContext) =
            OnPrepareHardware_loop FxResourcesTranslated (STATUS_INSUFFICIENT_RESOURCES, Dev w);
          w1 = w\<lparr>Dev := devContext\<rparr>
      in
        if \<not> NT_SUCCESS status then (status, Trace (ErrorFindingConnection status) w1)
        else
          let (status, w2) = call_SpbTargetInitialize env w1 in
          if \<not> NT_SUCCESS status then (status, Trace (ErrorSpbInitialization status) w2)
          else
            let (status, w3) = call_TchAllocateContext env w2 in
            if \<not> NT_SUCCESS status then (status, Trace (ErrorAllocatingTouchContext status) w3)
            else
              let (status, w4) = call_TchStartDevice env w3 in
              if \<not> NT_SUCCESS status then (status, Trace (ErrorStartingTouchDevice status) w4)
              else (status, w4))"

subsection \<open>OnReleaseHardware\<close>

definition OnReleaseHardware :: "('t, 'b) env \<Rightarrow> ('t, 'b) world \<Rightarrow> ntstatus \<times> ('t, 'b) world" where
  "OnReleaseHardware env w =
     (let (status, w1) = call_TchStopDevice env w;
          w2 = (if \<not> NT_SUCCESS status then Trace (ErrorStoppingDevice status) w1 else w1);
          (status, w3) = call_TchFreeContext env w2;
          w4 = (if \<not> NT_SUCCESS status then Trace (ErrorFreeingTouchContext status) w3 else w3);
          w5 = call_SpbTargetDeinitialize env w4
      in (status, w5))"

subsection \<open>Notions used to state the properties\<close>

text \<open>
  What lines 143 to 184 of \<^verbatim>\<open>SendHidReports\<close> do with a request that was dequeued
  while the loop index was \<open>i\<close>: the request as it is completed and the completion
  status (\<open>completion_of\<close>), and the trace entries written on the way
  (\<open>traces_of\<close>).
\<close>

definition completion_of ::
  "('t, 'b) env \<Rightarrow> report_memory \<Rightarrow> nat \<Rightarrow> wdf_request \<Rightarrow> wdf_request \<times> ntstatus" where
  "completion_of env mem i request =
     (if \<not> NT_SUCCESS (RetrieveOutputBufferStatus request) then
        (request, RetrieveOutputBufferStatus request)
      else if length (OutputBuffer request) < sizeof_HID_INPUT_REPORT env then
        (request, STATUS_BUFFER_TOO_SMALL)
      else
        (request\<lparr>OutputBuffer :=
                    hidReportAt env mem i @ drop (sizeof_HID_INPUT_REPORT env) (OutputBuffer request),
                  Information := sizeof_HID_INPUT_REPORT env\<rparr>,
         RetrieveOutputBufferStatus request))"

definition traces_of :: "('t, 'b) env \<Rightarrow> wdf_request \<Rightarrow> trace_entry list" where
  "traces_of env request =
     (if \<not> NT_SUCCESS (RetrieveOutputBufferStatus request) then
        [ErrorRetrievingOutputBuffer (RetrieveOutputBufferStatus request)]
      else if length (OutputBuffer request) < sizeof_HID_INPUT_REPORT env then
        [BufferIsTooSmall (length (OutputBuffer request)) STATUS_BUFFER_TOO_SMALL]
      else [])"

text \<open>
  A request with an adequate buffer: the buffer is retrieved with a success status and
  holds at least \<^verbatim>\<open>sizeof(HID_INPUT_REPORT)\<close> bytes. \<open>filled env mem i request\<close> is
  that request after report \<open>i\<close> was copied to the front of its buffer and its
  information field set.
\<close>

definition adequate :: "('t, 'b) env \<Rightarrow> wdf_request \<Rightarrow> bool" where
  "adequate env request =
     (NT_SUCCESS (RetrieveOutputBufferStatus request) \<and>
      sizeof_HID_INPUT_REPORT env \<le> length (OutputBuffer request))"

definition filled :: "('t, 'b) env \<Rightarrow> report_memory \<Rightarrow> nat \<Rightarrow> wdf_request \<Rightarrow> wdf_request" where
  "filled env mem i request =
     request\<lparr>OutputBuffer :=
               hidReportAt env mem i @ drop (sizeof_HID_INPUT_REPORT env) (OutputBuffer request),
             Information := sizeof_HID_INPUT_REPORT env\<rparr>"

text \<open>The connection ID of a descriptor, as the resource loop stores it.\<close>

definition connection_id :: "cm_partial_resource_descriptor \<Rightarrow> large_integer" where
  "connection_id res = \<lparr>LowPart = Connection_IdLowPart res, HighPart = Connection_IdHighPart res\<rparr>"

text \<open>
  The status that \<^verbatim>\<open>OnPrepareHardware\<close> returns, as a function of the status the resource
  loop leaves and of the touch and bus contexts it leaves.
\<close>

definition prepare_status ::
  "('t, 'b) env \<Rightarrow> ntstatus \<Rightarrow> 't \<Rightarrow> 'b spb_context \<Rightarrow> ntstatus" where
  "prepare_status env status touch i2c =
     (if \<not> NT_SUCCESS status then status
      else if \<not> NT_SUCCESS (fst (SpbTargetInitialize env i2c)) then fst (SpbTargetInitialize env i2c)
      else if \<not> NT_SUCCESS (fst (TchAllocateContext env touch)) then fst (TchAllocateContext env touch)
      else fst (TchStartDevice env (snd (TchAllocateContext env touch))
                  (snd (SpbTargetInitialize env i2c))))"

subsection \<open>A concrete device\<close>

text \<open>
  A device with two-byte reports whose touch engine answers every call with the given
  status (freeing the context always succeeds) and, on an interrupt, hands back \<open>n\<close>
  reports from a memory whose byte at offset \<open>a\<close> is \<open>a\<close>; queue 0 is the ping-pong
  queue.
\<close>

definition sample_env :: "ntstatus \<Rightarrow> int \<Rightarrow> (unit, unit) env" where
  "sample_env status n =
     \<lparr>sizeof_HID_INPUT_REPORT = 2,
      TchServiceInterrupts = (\<lambda>touch i2c mode. (status, (\<lambda>a. of_nat a), n, touch, i2c)),
      TchWakeDevice = (\<lambda>touch i2c. (status, touch, i2c)),
      TchStartDevice = (\<lambda>touch i2c. (status, touch, i2c)),
      TchStopDevice = (\<lambda>touch i2c. (status, touch, i2c)),
      TchAllocateContext = (\<lambda>touch. (status, touch)),
      TchFreeContext = (\<lambda>touch. (STATUS_SUCCESS, touch)),
      SpbTargetInitialize = (\<lambda>i2c. (status, i2c)),
      SpbTargetDeinitialize = (\<lambda>i2c. i2c),
      TchCompleteIdleIrp = (\<lambda>devContext. devContext)\<rparr>"

definition sample_dev :: "(unit, unit) device_extension" where
  "sample_dev =
     \<lparr>TouchContext = (),
      I2CContext = \<lparr>I2cResHubId = \<lparr>LowPart = 0, HighPart = 0\<rparr>, SpbState = ()\<rparr>,
      InputMode = 0,
      PingPongQueue = 0,
      ResetGpioId = \<lparr>LowPart = 0, HighPart = 0\<rparr>,
      HasResetGpio = False,
      ServiceInterruptsAfterD0Entry = False\<rparr>"

definition sample_world :: "wdf_request list \<Rightarrow> (unit, unit) world" where
  "sample_world pending =
     \<lparr>Dev = sample_dev,
      Queues = (\<lambda>q. if q = 0 then pending else []),
      Completed = [],
      TraceLog = [],
      Calls = []\<rparr>"

definition sample_request :: "nat \<Rightarrow> ntstatus \<Rightarrow> byte list \<Rightarrow> wdf_request" where
  "sample_request h status buffer =
     \<lparr>Handle = h, RetrieveOutputBufferStatus = status, OutputBuffer = buffer, Information = 0\<rparr>"

text \<open>
  Resource descriptors: a Serial/I2C connection, a GPIO I/O connection, and an interrupt
  resource (type 2), which the resource loop does not recognise.
\<close>

definition i2c_descriptor :: "32 word \<Rightarrow> 32 word \<Rightarrow> cm_partial_resource_descriptor" where
  "i2c_descriptor lo hi =
     \<lparr>Type = CmResourceTypeConnection,
      Connection_Class = CM_RESOURCE_CONNECTION_CLASS_SERIAL,
      Connection_Type = CM_RESOURCE_CONNECTION_TYPE_SERIAL_I2C,
      Connection_IdLowPart = lo, Connection_IdHighPart = hi\<rparr>"

definition gpio_descriptor :: "32 word \<Rightarrow> 32 word \<Rightarrow> cm_partial_resource_descriptor" where
  "gpio_descriptor lo hi =
     \<lparr>Type = CmResourceTypeConnection,
      Connection_Class = CM_RESOURCE_CONNECTION_CLASS_GPIO,
      Connection_Type = CM_RESOURCE_CONNECTION_TYPE_GPIO_IO,
      Connection_IdLowPart = lo, Connection_IdHighPart = hi\<rparr>"

definition interrupt_descriptor :: cm_partial_resource_descriptor where
  "interrupt_descriptor =
     \<lparr>Type = 2, Connection_Class = 0, Connection_Type = 0,
      Connection_IdLowPart = 0, Connection_IdHighPart = 0\<rparr>"

lemmas sample_defs = sample_env_def sample_world_def sample_dev_def sample_request_def

section \<open>Properties\<close>

subsection \<open>Status codes\<close>

lemma NT_SUCCESS_consts:
  "NT_SUCCESS STATUS_SUCCESS" "\<not> NT_SUCCESS STATUS_NO_MORE_ENTRIES"
  "\<not> NT_SUCCESS STATUS_UNSUCCESSFUL" "\<not> NT_SUCCESS STATUS_BUFFER_TOO_SMALL"
  "\<not> NT_SUCCESS STATUS_INSUFFICIENT_RESOURCES"
  by (simp_all add: NT_SUCCESS_def STATUS_SUCCESS_def STATUS_NO_MORE_ENTRIES_def STATUS_UNSUCCESSFUL_def
     STATUS_BUFFER_TOO_SMALL_def STATUS_INSUFFICIENT_RESOURCES_def)

subsection \<open>The dispatch loop\<close>

lemma length_hidReportAt: "length (hidReportAt env mem i) = sizeof_HID_INPUT_REPORT env"
  by (simp add: hidReportAt_def)

lemma SendHidReports_body_empty:
  "Queues w q = [] \<Longrightarrow>
   SendHidReports_body env q mem i w = w\<lparr>TraceLog := TraceLog w @ [NoRequestPending STATUS_NO_MORE_ENTRIES]\<rparr>"
  by (simp add: SendHidReports_body_def WdfIoQueueRetrieveNextRequest_def Trace_def)

lemma SendHidReports_body_Cons:
  "Queues w q = r # rs \<Longrightarrow>
   SendHidReports_body env q mem i w =
     w\<lparr>Queues := (Queues w)(q := rs),
       Completed := Completed w @ [completion_of env mem (nat i) r],
       TraceLog := TraceLog w @ traces_of env r\<rparr>"
  by (simp add: SendHidReports_body_def WdfIoQueueRetrieveNextRequest_def Trace_def
      WdfRequestComplete_def WdfRequestSetInformation_def RtlCopyMemory_def
      completion_of_def traces_of_def length_hidReportAt Let_def)

lemma SendHidReports_loop_char:
  "0 \<le> i \<Longrightarrow>
   SendHidReports_loop env q mem n i w =
     w\<lparr>Queues := (Queues w)(q := drop (nat n - nat i) (Queues w q)),
       Completed := Completed w @
          map (\<lambda>(j, r). completion_of env mem j r) (zip [nat i ..< nat n] (Queues w q)),
       TraceLog := TraceLog w @ concat (map (traces_of env) (take (nat n - nat i) (Queues w q))) @
          replicate (nat n - nat i - length (Queues w q)) (NoRequestPending STATUS_NO_MORE_ENTRIES)\<rparr>"
proof (induction env q mem n i w rule: SendHidReports_loop.induct)
  case (1 env q mem n i w)
  show ?case
  proof (cases "i < n")
    case False
    then have z: "nat n - nat i = 0" "[nat i ..< nat n] = []" using 1(2) by simp_all
    have "SendHidReports_loop env q mem n i w = w"
      using False by (simp add: SendHidReports_loop.simps [of env q mem n i w])
    then show ?thesis unfolding z by simp
  next
    case True
    define i' where "i' = nat (i + 1)"
    define m where "m = nat n - i'"
    have up: "[nat i ..< nat n] = nat i # [i' ..< nat n]"
      using True 1(2) unfolding i'_def by (simp add: upt_conv_Cons nat_add_distrib)
    have d: "nat n - nat i = Suc m"
      using True 1(2) unfolding m_def i'_def by linarith
    have step: "SendHidReports_loop env q mem n i w =
        SendHidReports_loop env q mem n (i + 1) (SendHidReports_body env q mem i w)"
      using True by (simp add: SendHidReports_loop.simps [of env q mem n i w])
    have "0 \<le> i + 1" using 1(2) by simp
    note IH = 1(1) [OF True this, folded i'_def, folded m_def]
    show ?thesis
    proof (cases "Queues w q")
      case Nil
      show ?thesis unfolding step IH d up
        by (simp add: SendHidReports_body_empty Nil replicate_app_Cons_same fun_upd_def)
    next
      case (Cons r rs)
      show ?thesis unfolding step IH d up
        by (simp add: SendHidReports_body_Cons Cons fun_upd_def cong: if_cong)
    qed
  qed
qed

lemma SendHidReports_char:
  "SendHidReports env q mem n w =
     w\<lparr>Queues := (Queues w)(q := drop (nat n) (Queues w q)),
       Completed := Completed w @
          map (\<lambda>(j, r). completion_of env mem j r) (zip [0 ..< nat n] (Queues w q)),
       TraceLog := TraceLog w @ concat (map (traces_of env) (take (nat n) (Queues w q))) @
          replicate (nat n - length (Queues w q)) (NoRequestPending STATUS_NO_MORE_ENTRIES)\<rparr>"
  unfolding SendHidReports_def using SendHidReports_loop_char [of 0 env q mem n w] by simp

lemma completion_of_adequate:
  "adequate env r \<Longrightarrow> completion_of env mem i r = (filled env mem i r, RetrieveOutputBufferStatus r)"
  by (simp add: adequate_def completion_of_def filled_def)

lemma traces_of_adequate: "adequate env r \<Longrightarrow> traces_of env r = []"
  by (simp add: adequate_def traces_of_def)

lemma concat_traces_adequate:
  "\<forall>r \<in> set rs. adequate env r \<Longrightarrow> concat (map (traces_of env) rs) = []"
  by (induction rs) (simp_all add: traces_of_adequate)

lemma map2_completion_adequate:
  "\<forall>r \<in> set rs. adequate env r \<Longrightarrow>
   map (\<lambda>(j, r). completion_of env mem j r) (zip js rs) =
   map (\<lambda>(j, r). (filled env mem j r, RetrieveOutputBufferStatus r)) (zip js rs)"
  by (rule map_cong) (auto dest: set_zip_rightD simp: completion_of_adequate)

lemma Handle_completion_of: "Handle (fst (completion_of env mem j r)) = Handle r"
  by (simp add: completion_of_def)

lemma map_Handle_completions:
  "map (Handle \<circ> fst) (map (\<lambda>(j, r). completion_of env mem j r) (zip [0 ..< n] rs)) =
   map Handle (take n rs)"
proof -
  have "map (Handle \<circ> fst) (map (\<lambda>(j, r). completion_of env mem j r) (zip [0 ..< n] rs)) =
        map (Handle \<circ> snd) (zip [0 ..< n] rs)"
    by (simp add: Handle_completion_of split_def comp_def)
  also have "\<dots> = map Handle (map snd (zip [0 ..< n] rs))" by simp
  also have "map snd (zip [0 ..< n] rs) = take n rs"
    by (cases "n \<le> length rs") (simp_all add: map_snd_zip_take min_def)
  finally show ?thesis .
qed

lemma zip_upt_take:
  "zip [0 ..< n] xs = zip [0 ..< min n (length xs)] (take (min n (length xs)) xs)"
proof -
  let ?k = "min n (length xs)"
  have "zip [0 ..< n] xs = take ?k (zip [0 ..< n] xs)" by simp
  also have "\<dots> = zip (take ?k [0 ..< n]) (take ?k xs)" by (rule take_zip)
  also have "take ?k [0 ..< n] = [0 ..< ?k]" by (simp add: take_upt)
  finally show ?thesis .
qed

lemma SendHidReports_adequate:
  assumes "\<forall>request \<in> set (Queues w q). adequate env request"
  shows "SendHidReports env q mem n w =
     w\<lparr>Queues := (Queues w)(q := drop (min (nat n) (length (Queues w q))) (Queues w q)),
       Completed := Completed w @
          map (\<lambda>(j, r). (filled env mem j r, RetrieveOutputBufferStatus r))
            (zip [0 ..< min (nat n) (length (Queues w q))]
               (take (min (nat n) (length (Queues w q))) (Queues w q))),
       TraceLog := TraceLog w @
          replicate (nat n - min (nat n) (length (Queues w q)))
            (NoRequestPending STATUS_NO_MORE_ENTRIES)\<rparr>"
proof -
  let ?p = "Queues w q"
  have a: "\<forall>r \<in> set (take (nat n) ?p). adequate env r"
    using assms by (meson in_set_takeD)
  have d: "drop (min (nat n) (length ?p)) ?p = drop (nat n) ?p"
    by (cases "nat n \<le> length ?p") (simp_all add: min_def)
  have r: "nat n - min (nat n) (length ?p) = nat n - length ?p"
    by (simp add: min_def)
  show ?thesis
    unfolding SendHidReports_char d r
    by (simp add: concat_traces_adequate [OF a] map2_completion_adequate [OF assms]
        zip_upt_take [symmetric])
qed

lemma OnInterruptIsr_success:
  assumes "TchServiceInterrupts env (TouchContext (Dev w)) (I2CContext (Dev w)) (InputMode (Dev w)) =
             (status, reports, n, touch, i2c)"
    and "NT_SUCCESS status"
  shows "OnInterruptIsr env w =
     (True, SendHidReports env (PingPongQueue (Dev w)) reports n
        (w\<lparr>Dev := (Dev w)\<lparr>TouchContext := touch, I2CContext := i2c\<rparr>,
            Calls := Calls w @ [CallTchServiceInterrupts]\<rparr>))"
  using assms by (simp add: OnInterruptIsr_def Let_def)

lemma OnInterruptIsr_failure:
  assumes "TchServiceInterrupts env (TouchContext (Dev w)) (I2CContext (Dev w)) (InputMode (Dev w)) =
             (status, reports, n, touch, i2c)"
    and "\<not> NT_SUCCESS status"
  shows "OnInterruptIsr env w =
     (True, w\<lparr>Dev := (Dev w)\<lparr>TouchContext := touch, I2CContext := i2c\<rparr>,
              Calls := Calls w @ [CallTchServiceInterrupts]\<rparr>)"
  using assms by (simp add: OnInterruptIsr_def Let_def)

lemma completions_nth:
  assumes "j < min n (length pending)"
  shows "map (\<lambda>(j, r). completion_of env mem j r) (zip [0 ..< n] pending) ! j =
         completion_of env mem j (pending ! j)"
  using assms by simp

lemma SendHidReports_Completed:
  "Completed (SendHidReports env q mem n w) =
     Completed w @ map (\<lambda>(j, r). completion_of env mem j r) (zip [0 ..< nat n] (Queues w q))"
  by (subst SendHidReports_char) simp

lemma SendHidReports_Queues:
  "Queues (SendHidReports env q mem n w) = (Queues w)(q := drop (nat n) (Queues w q))"
  by (subst SendHidReports_char) simp

lemma completion_of_cases:
  "(NT_SUCCESS (snd (completion_of env mem j r)) \<and>
      fst (completion_of env mem j r) = filled env mem j r) \<or>
   (\<not> NT_SUCCESS (snd (completion_of env mem j r)) \<and> fst (completion_of env mem j r) = r)"
  by (simp add: completion_of_def filled_def NT_SUCCESS_consts)

subsection \<open>Conservation\<close>

text \<open>
  Claim C1. When the touch engine services the interrupt with success and hands back
  \<open>n\<close> reports while the ping-pong queue holds \<open>p\<close> requests, each with an adequate
  buffer, the interrupt routine leaves the world described by the first conjunct:
  the first \<open>k = min n p\<close> requests leave the queue and are completed, request \<open>j\<close>
  filled with report \<open>j\<close>; every one of the other \<open>n - k\<close> reports leaves one
  "no request pending" trace entry and nothing else, so no part of the world holds it.
  Hence exactly \<open>k\<close> completions are added, all with a success status, one for each
  of the first \<open>k\<close> pending requests in queue order; and either the queue is left
  empty or every report was matched.
\<close>

theorem isr_conservation:
  assumes svc: "TchServiceInterrupts env (TouchContext (Dev w)) (I2CContext (Dev w)) (InputMode (Dev w)) =
             (status, reports, n, touch, i2c)"
    and ok: "NT_SUCCESS status"
    and pending: "pending = Queues w (PingPongQueue (Dev w))"
    and adq: "\<forall>request \<in> set pending. adequate env request"
    and k: "k = min (nat n) (length pending)"
    and w': "w' = snd (OnInterruptIsr env w)"
  shows "w' = w\<lparr>Dev := (Dev w)\<lparr>TouchContext := touch, I2CContext := i2c\<rparr>,
                Queues := (Queues w)(PingPongQueue (Dev w) := drop k pending),
                Completed := Completed w @
                  map (\<lambda>(j, request). (filled env reports j request, RetrieveOutputBufferStatus request))
                    (zip [0 ..< k] (take k pending)),
                TraceLog := TraceLog w @
                  replicate (nat n - k) (NoRequestPending STATUS_NO_MORE_ENTRIES),
                Calls := Calls w @ [CallTchServiceInterrupts]\<rparr> \<and>
         (\<exists>cs. Completed w' = Completed w @ cs \<and> length cs = k \<and>
               (\<forall>c \<in> set cs. NT_SUCCESS (snd c)) \<and>
               map (Handle \<circ> fst) cs = map Handle (take k pending)) \<and>
         (Queues w' (PingPongQueue (Dev w)) = [] \<or> k = nat n)"
proof -
  let ?q = "PingPongQueue (Dev w)"
  let ?w1 = "w\<lparr>Dev := (Dev w)\<lparr>TouchContext := touch, I2CContext := i2c\<rparr>,
               Calls := Calls w @ [CallTchServiceInterrupts]\<rparr>"
  let ?cs = "map (\<lambda>(j, request). (filled env reports j request, RetrieveOutputBufferStatus request))
               (zip [0 ..< k] (take k pending))"
  have adq1: "\<forall>request \<in> set (Queues ?w1 ?q). adequate env request"
    using adq pending by simp
  have eq: "w' = SendHidReports env ?q reports n ?w1"
    unfolding w' OnInterruptIsr_success [OF svc ok] by simp
  have A: "w' = w\<lparr>Dev := (Dev w)\<lparr>TouchContext := touch, I2CContext := i2c\<rparr>,
                Queues := (Queues w)(?q := drop k pending),
                Completed := Completed w @ ?cs,
                TraceLog := TraceLog w @
                  replicate (nat n - k) (NoRequestPending STATUS_NO_MORE_ENTRIES),
                Calls := Calls w @ [CallTchServiceInterrupts]\<rparr>"
    unfolding eq SendHidReports_adequate [OF adq1] by (simp add: k pending)
  have len: "length ?cs = k" by (simp add: k)
  have succ: "\<forall>c \<in> set ?cs. NT_SUCCESS (snd c)"
  proof
    fix c assume "c \<in> set ?cs"
    then obtain j r where "(j, r) \<in> set (zip [0 ..< k] (take k pending))"
      and c: "c = (filled env reports j r, RetrieveOutputBufferStatus r)" by auto
    then have "r \<in> set pending" by (meson set_zip_rightD in_set_takeD)
    then show "NT_SUCCESS (snd c)" using adq c by (simp add: adequate_def)
  qed
  have hs: "map (Handle \<circ> fst) ?cs = map Handle (take k pending)"
  proof -
    have "map (Handle \<circ> fst) ?cs = map (Handle \<circ> snd) (zip [0 ..< k] (take k pending))"
      by (simp add: filled_def split_def comp_def)
    also have "\<dots> = map Handle (map snd (zip [0 ..< k] (take k pending)))" by simp
    also have "map snd (zip [0 ..< k] (take k pending)) = take k pending"
      by (simp add: map_snd_zip_take k min_def)
    finally show ?thesis .
  qed
  have C: "Completed w' = Completed w @ ?cs" by (subst A) simp
  have Q: "Queues w' ?q = drop k pending" by (subst A) simp
  have D: "Queues w' ?q = [] \<or> k = nat n"
    unfolding Q by (simp add: k min_def)
  from A C len succ hs D show ?thesis by blast
qed

theorem isr_conservation_witness:
  "Completed (snd (OnInterruptIsr (sample_env STATUS_SUCCESS 2)
       (sample_world [sample_request 7 STATUS_SUCCESS [9, 9, 9]]))) =
     [(\<lparr>Handle = 7, RetrieveOutputBufferStatus = STATUS_SUCCESS, OutputBuffer = [0, 1, 9],
        Information = 2\<rparr>, STATUS_SUCCESS)] \<and>
   TraceLog (snd (OnInterruptIsr (sample_env STATUS_SUCCESS 2)
       (sample_world [sample_request 7 STATUS_SUCCESS [9, 9, 9]]))) =
     [NoRequestPending STATUS_NO_MORE_ENTRIES] \<and>
   Queues (snd (OnInterruptIsr (sample_env STATUS_SUCCESS 2)
       (sample_world [sample_request 7 STATUS_SUCCESS [9, 9, 9]]))) 0 = []"
proof -
  let ?env = "sample_env STATUS_SUCCESS 2"
  let ?w = "sample_world [sample_request 7 STATUS_SUCCESS [9, 9, 9]]"
  have svc: "TchServiceInterrupts ?env (TouchContext (Dev ?w)) (I2CContext (Dev ?w)) (InputMode (Dev ?w)) =
      (STATUS_SUCCESS, (\<lambda>a. of_nat a), 2, (), I2CContext sample_dev)"
    by (simp add: sample_defs)
  have adq: "\<forall>request \<in> set (Queues ?w (PingPongQueue (Dev ?w))). adequate ?env request"
    by (simp add: sample_defs adequate_def NT_SUCCESS_consts)
  have k: "(1::nat) = min (nat 2) (length (Queues ?w (PingPongQueue (Dev ?w))))"
    by (simp add: sample_defs)
  note th = isr_conservation [OF svc NT_SUCCESS_consts(1) refl adq k refl, THEN conjunct1]
  have C: "Completed (snd (OnInterruptIsr ?env ?w)) =
     [(\<lparr>Handle = 7, RetrieveOutputBufferStatus = STATUS_SUCCESS, OutputBuffer = [0, 1, 9],
        Information = 2\<rparr>, STATUS_SUCCESS)]"
    by (subst th) (simp_all add: sample_defs filled_def hidReportAt_def)
  have T: "TraceLog (snd (OnInterruptIsr ?env ?w)) = [NoRequestPending STATUS_NO_MORE_ENTRIES]"
    by (subst th) (simp_all add: sample_defs)
  have Q: "Queues (snd (OnInterruptIsr ?env ?w)) 0 = []"
    by (subst th) (simp_all add: sample_defs)
  from C T Q show ?thesis by simp
qed

subsection \<open>Order\<close>

text \<open>
  Claim C2. When every pending request has an adequate buffer, \<^verbatim>\<open>SendHidReports\<close>
  adds one completion for each of the first \<open>min n p\<close> requests of the queue, in queue
  order, and completion \<open>j\<close> carries report \<open>j\<close>: it is on request \<open>j\<close> of the queue,
  the first \<^verbatim>\<open>sizeof(HID_INPUT_REPORT)\<close> bytes of its buffer are the bytes of
  \<^verbatim>\<open>hidReportsFromDriver[j]\<close>, the bytes after them are the buffer's old ones, its
  information field is \<^verbatim>\<open>sizeof(HID_INPUT_REPORT)\<close>, and its status is the success
  status of the buffer retrieval.
\<close>

theorem dispatch_order:
  assumes adq: "\<forall>request \<in> set (Queues w q). adequate env request"
    and w': "w' = SendHidReports env q reports n w"
  shows "\<exists>cs. Completed w' = Completed w @ cs \<and>
           length cs = min (nat n) (length (Queues w q)) \<and>
           (\<forall>j < length cs.
              Handle (fst (cs ! j)) = Handle (Queues w q ! j) \<and>
              take (sizeof_HID_INPUT_REPORT env) (OutputBuffer (fst (cs ! j))) =
                hidReportAt env reports j \<and>
              drop (sizeof_HID_INPUT_REPORT env) (OutputBuffer (fst (cs ! j))) =
                drop (sizeof_HID_INPUT_REPORT env) (OutputBuffer (Queues w q ! j)) \<and>
              Information (fst (cs ! j)) = sizeof_HID_INPUT_REPORT env \<and>
              snd (cs ! j) = RetrieveOutputBufferStatus (Queues w q ! j) \<and>
              NT_SUCCESS (snd (cs ! j)))"
proof -
  let ?p = "Queues w q"
  let ?cs = "map (\<lambda>(j, r). completion_of env reports j r) (zip [0 ..< nat n] ?p)"
  have C: "Completed w' = Completed w @ ?cs"
    unfolding w' by (rule SendHidReports_Completed)
  have len: "length ?cs = min (nat n) (length ?p)" by simp
  have each: "Handle (fst (?cs ! j)) = Handle (?p ! j) \<and>
              take (sizeof_HID_INPUT_REPORT env) (OutputBuffer (fst (?cs ! j))) =
                hidReportAt env reports j \<and>
              drop (sizeof_HID_INPUT_REPORT env) (OutputBuffer (fst (?cs ! j))) =
                drop (sizeof_HID_INPUT_REPORT env) (OutputBuffer (?p ! j)) \<and>
              Information (fst (?cs ! j)) = sizeof_HID_INPUT_REPORT env \<and>
              snd (?cs ! j) = RetrieveOutputBufferStatus (?p ! j) \<and>
              NT_SUCCESS (snd (?cs ! j))" if j: "j < length ?cs" for j
  proof -
    from j have jn: "j < min (nat n) (length ?p)" by simp
    then have "?p ! j \<in> set ?p" by simp
    with adq have a: "adequate env (?p ! j)" by blast
    have "?cs ! j = completion_of env reports j (?p ! j)"
      by (rule completions_nth [OF jn])
    also have "\<dots> = (filled env reports j (?p ! j), RetrieveOutputBufferStatus (?p ! j))"
      by (rule completion_of_adequate [OF a])
    finally show ?thesis using a
      by (simp add: filled_def adequate_def length_hidReportAt)
  qed
  from C len each show ?thesis by blast
qed

theorem dispatch_order_witness:
  "length (Completed (SendHidReports (sample_env STATUS_SUCCESS 2) 0 (\<lambda>a. of_nat a) 2
      (sample_world [sample_request 7 STATUS_SUCCESS [9, 9, 9], sample_request 8 STATUS_SUCCESS [6, 6]]))) = 2 \<and>
   Handle (fst (Completed (SendHidReports (sample_env STATUS_SUCCESS 2) 0 (\<lambda>a. of_nat a) 2
      (sample_world [sample_request 7 STATUS_SUCCESS [9, 9, 9], sample_request 8 STATUS_SUCCESS [6, 6]])) ! 1)) = 8 \<and>
   take 2 (OutputBuffer (fst (Completed (SendHidReports (sample_env STATUS_SUCCESS 2) 0 (\<lambda>a. of_nat a) 2
      (sample_world [sample_request 7 STATUS_SUCCESS [9, 9, 9], sample_request 8 STATUS_SUCCESS [6, 6]])) ! 1))) = [2, 3] \<and>
   Information (fst (Completed (SendHidReports (sample_env STATUS_SUCCESS 2) 0 (\<lambda>a. of_nat a) 2
      (sample_world [sample_request 7 STATUS_SUCCESS [9, 9, 9], sample_request 8 STATUS_SUCCESS [6, 6]])) ! 1)) = 2"
proof -
  let ?env = "sample_env STATUS_SUCCESS 2"
  let ?w = "sample_world [sample_request 7 STATUS_SUCCESS [9, 9, 9], sample_request 8 STATUS_SUCCESS [6, 6]]"
  let ?w' = "SendHidReports ?env 0 (\<lambda>a. of_nat a) 2 ?w"
  have adq: "\<forall>request \<in> set (Queues ?w 0). adequate ?env request"
    by (simp add: sample_defs adequate_def NT_SUCCESS_consts)
  from dispatch_order [OF adq refl, where reports = "\<lambda>a. of_nat a" and n = 2]
  obtain cs where C: "Completed ?w' = Completed ?w @ cs"
    and len: "length cs = min (nat 2) (length (Queues ?w 0))"
    and each: "\<forall>j < length cs.
              Handle (fst (cs ! j)) = Handle (Queues ?w 0 ! j) \<and>
              take (sizeof_HID_INPUT_REPORT ?env) (OutputBuffer (fst (cs ! j))) =
                hidReportAt ?env (\<lambda>a. of_nat a) j \<and>
              drop (sizeof_HID_INPUT_REPORT ?env) (OutputBuffer (fst (cs ! j))) =
                drop (sizeof_HID_INPUT_REPORT ?env) (OutputBuffer (Queues ?w 0 ! j)) \<and>
              Information (fst (cs ! j)) = sizeof_HID_INPUT_REPORT ?env \<and>
              snd (cs ! j) = RetrieveOutputBufferStatus (Queues ?w 0 ! j) \<and>
              NT_SUCCESS (snd (cs ! j))"
    by blast
  have C': "Completed ?w' = cs" using C by (simp add: sample_defs)
  have len': "length cs = 2" using len by (simp add: sample_defs)
  from each len' have
     "Handle (fst (cs ! 1)) = Handle (Queues ?w 0 ! 1) \<and>
      take (sizeof_HID_INPUT_REPORT ?env) (OutputBuffer (fst (cs ! 1))) =
                hidReportAt ?env (\<lambda>a. of_nat a) 1 \<and>
      Information (fst (cs ! 1)) = sizeof_HID_INPUT_REPORT ?env" by simp
  then have "Handle (fst (cs ! 1)) = 8 \<and> take 2 (OutputBuffer (fst (cs ! 1))) = [2, 3] \<and>
      Information (fst (cs ! 1)) = 2"
    by (simp add: sample_defs hidReportAt_def)
  with C' len' show ?thesis by simp
qed

subsection \<open>The interrupt routine\<close>

text \<open>
  Claim C3. \<^verbatim>\<open>OnInterruptIsr\<close> returns TRUE on every invocation. When
  \<^verbatim>\<open>TchServiceInterrupts\<close> fails, nothing is dispatched: no queue changes, no request
  is completed, nothing is traced, and the call to the touch engine is the only call
  made.
\<close>

theorem isr_always_recognized:
  "fst (OnInterruptIsr env w) = True \<and>
   (\<not> NT_SUCCESS (fst (TchServiceInterrupts env (TouchContext (Dev w)) (I2CContext (Dev w))
                        (InputMode (Dev w)))) \<longrightarrow>
      Queues (snd (OnInterruptIsr env w)) = Queues w \<and>
      Completed (snd (OnInterruptIsr env w)) = Completed w \<and>
      TraceLog (snd (OnInterruptIsr env w)) = TraceLog w \<and>
      Calls (snd (OnInterruptIsr env w)) = Calls w @ [CallTchServiceInterrupts])"
proof -
  obtain status reports n touch i2c where
    svc: "TchServiceInterrupts env (TouchContext (Dev w)) (I2CContext (Dev w)) (InputMode (Dev w)) =
            (status, reports, n, touch, i2c)"
    by (metis prod_cases5)
  show ?thesis
  proof (cases "NT_SUCCESS status")
    case True
    then show ?thesis by (simp add: OnInterruptIsr_success [OF svc True] svc)
  next
    case False
    then show ?thesis by (simp add: OnInterruptIsr_failure [OF svc False] svc)
  qed
qed

theorem isr_always_recognized_witness:
  "fst (OnInterruptIsr (sample_env STATUS_UNSUCCESSFUL 2)
          (sample_world [sample_request 7 STATUS_SUCCESS [9, 9]])) = True \<and>
   Completed (snd (OnInterruptIsr (sample_env STATUS_UNSUCCESSFUL 2)
          (sample_world [sample_request 7 STATUS_SUCCESS [9, 9]]))) = [] \<and>
   Queues (snd (OnInterruptIsr (sample_env STATUS_UNSUCCESSFUL 2)
          (sample_world [sample_request 7 STATUS_SUCCESS [9, 9]]))) 0 =
     [sample_request 7 STATUS_SUCCESS [9, 9]] \<and>
   Calls (snd (OnInterruptIsr (sample_env STATUS_UNSUCCESSFUL 2)
          (sample_world [sample_request 7 STATUS_SUCCESS [9, 9]]))) = [CallTchServiceInterrupts]"
proof -
  let ?env = "sample_env STATUS_UNSUCCESSFUL 2"
  let ?w = "sample_world [sample_request 7 STATUS_SUCCESS [9, 9]]"
  have f: "\<not> NT_SUCCESS (fst (TchServiceInterrupts ?env (TouchContext (Dev ?w)) (I2CContext (Dev ?w))
                        (InputMode (Dev ?w))))"
    by (simp add: sample_env_def NT_SUCCESS_consts)
  from isr_always_recognized [where env = ?env and w = ?w] f
  have "fst (OnInterruptIsr ?env ?w) = True"
    "Queues (snd (OnInterruptIsr ?env ?w)) = Queues ?w"
    "Completed (snd (OnInterruptIsr ?env ?w)) = Completed ?w"
    "Calls (snd (OnInterruptIsr ?env ?w)) = Calls ?w @ [CallTchServiceInterrupts]"
    by blast+
  then show ?thesis by (simp add: sample_world_def)
qed

subsection \<open>Buffer discipline\<close>

text \<open>
  Claim C4. Whatever the pending requests are, \<^verbatim>\<open>SendHidReports\<close> completes the
  first \<open>min n p\<close> of them, in queue order. A request whose buffer is retrieved but is
  shorter than \<^verbatim>\<open>sizeof(HID_INPUT_REPORT)\<close> is completed unchanged (no byte of its
  buffer written) with \<^verbatim>\<open>STATUS_BUFFER_TOO_SMALL\<close>; a request whose buffer cannot be
  retrieved is completed unchanged with the status of the retrieval; and the loop goes
  on: a request \<open>j\<close> with an adequate buffer is filled with report \<open>j\<close>, whatever
  happened to the requests before it.
\<close>

theorem dispatch_buffer_discipline:
  assumes w': "w' = SendHidReports env q reports n w"
    and pending: "pending = Queues w q"
  shows "\<exists>cs. Completed w' = Completed w @ cs \<and>
           length cs = min (nat n) (length pending) \<and>
           (\<forall>j < length cs.
              (NT_SUCCESS (RetrieveOutputBufferStatus (pending ! j)) \<and>
               length (OutputBuffer (pending ! j)) < sizeof_HID_INPUT_REPORT env \<longrightarrow>
                 cs ! j = (pending ! j, STATUS_BUFFER_TOO_SMALL)) \<and>
              (\<not> NT_SUCCESS (RetrieveOutputBufferStatus (pending ! j)) \<longrightarrow>
                 cs ! j = (pending ! j, RetrieveOutputBufferStatus (pending ! j))) \<and>
              (adequate env (pending ! j) \<longrightarrow>
                 cs ! j = (filled env reports j (pending ! j),
                           RetrieveOutputBufferStatus (pending ! j))))"
proof -
  let ?cs = "map (\<lambda>(j, r). completion_of env reports j r) (zip [0 ..< nat n] pending)"
  have C: "Completed w' = Completed w @ ?cs"
    unfolding w' pending by (rule SendHidReports_Completed)
  have len: "length ?cs = min (nat n) (length pending)" by simp
  have each: "?cs ! j = completion_of env reports j (pending ! j)" if "j < length ?cs" for j
    using that by (intro completions_nth) simp
  have "\<forall>j < length ?cs.
              (NT_SUCCESS (RetrieveOutputBufferStatus (pending ! j)) \<and>
               length (OutputBuffer (pending ! j)) < sizeof_HID_INPUT_REPORT env \<longrightarrow>
                 ?cs ! j = (pending ! j, STATUS_BUFFER_TOO_SMALL)) \<and>
              (\<not> NT_SUCCESS (RetrieveOutputBufferStatus (pending ! j)) \<longrightarrow>
                 ?cs ! j = (pending ! j, RetrieveOutputBufferStatus (pending ! j))) \<and>
              (adequate env (pending ! j) \<longrightarrow>
                 ?cs ! j = (filled env reports j (pending ! j),
                           RetrieveOutputBufferStatus (pending ! j)))"
    using each by (simp add: completion_of_def adequate_def filled_def)
  with C len show ?thesis by blast
qed

theorem dispatch_buffer_discipline_witness:
  "Completed (SendHidReports (sample_env STATUS_SUCCESS 3) 0 (\<lambda>a. of_nat a) 3
      (sample_world [sample_request 7 STATUS_SUCCESS [9],
                     sample_request 8 STATUS_UNSUCCESSFUL [],
                     sample_request 9 STATUS_SUCCESS [6, 6]])) =
     [(sample_request 7 STATUS_SUCCESS [9], STATUS_BUFFER_TOO_SMALL),
      (sample_request 8 STATUS_UNSUCCESSFUL [], STATUS_UNSUCCESSFUL),
      (\<lparr>Handle = 9, RetrieveOutputBufferStatus = STATUS_SUCCESS, OutputBuffer = [4, 5],
         Information = 2\<rparr>, STATUS_SUCCESS)]"
proof -
  let ?env = "sample_env STATUS_SUCCESS 3"
  let ?p = "[sample_request 7 STATUS_SUCCESS [9], sample_request 8 STATUS_UNSUCCESSFUL [],
             sample_request 9 STATUS_SUCCESS [6, 6]]"
  let ?w = "sample_world ?p"
  let ?w' = "SendHidReports ?env 0 (\<lambda>a. of_nat a) 3 ?w"
  have p: "?p = Queues ?w 0" by (simp add: sample_defs)
  from dispatch_buffer_discipline [OF refl p, where env = ?env and reports = "\<lambda>a. of_nat a" and n = 3]
  obtain cs where C: "Completed ?w' = Completed ?w @ cs"
    and len: "length cs = min (nat 3) (length ?p)"
    and each: "\<forall>j < length cs.
              (NT_SUCCESS (RetrieveOutputBufferStatus (?p ! j)) \<and>
               length (OutputBuffer (?p ! j)) < sizeof_HID_INPUT_REPORT ?env \<longrightarrow>
                 cs ! j = (?p ! j, STATUS_BUFFER_TOO_SMALL)) \<and>
              (\<not> NT_SUCCESS (RetrieveOutputBufferStatus (?p ! j)) \<longrightarrow>
                 cs ! j = (?p ! j, RetrieveOutputBufferStatus (?p ! j))) \<and>
              (adequate ?env (?p ! j) \<longrightarrow>
                 cs ! j = (filled ?env (\<lambda>a. of_nat a) j (?p ! j),
                           RetrieveOutputBufferStatus (?p ! j)))"
    by blast
  have len': "length cs = 3" using len by simp
  have c0: "cs ! 0 = (sample_request 7 STATUS_SUCCESS [9], STATUS_BUFFER_TOO_SMALL)"
    using each [rule_format, of 0] len'
    by (simp add: sample_defs NT_SUCCESS_consts)
  have c1: "cs ! 1 = (sample_request 8 STATUS_UNSUCCESSFUL [], STATUS_UNSUCCESSFUL)"
    using each [rule_format, of 1] len'
    by (simp add: sample_defs NT_SUCCESS_consts)
  have c2: "cs ! 2 = (\<lparr>Handle = 9, RetrieveOutputBufferStatus = STATUS_SUCCESS, OutputBuffer = [4, 5],
         Information = 2\<rparr>, STATUS_SUCCESS)"
    using each [rule_format, of 2] len'
    by (simp add: sample_defs NT_SUCCESS_consts adequate_def filled_def hidReportAt_def)
  have "cs = [cs ! 0, cs ! 1, cs ! 2]"
    using len' by (auto simp: list_eq_iff_nth_eq less_Suc_eq numeral_3_eq_3 numeral_2_eq_2)
  with c0 c1 c2 have "cs = [(sample_request 7 STATUS_SUCCESS [9], STATUS_BUFFER_TOO_SMALL),
      (sample_request 8 STATUS_UNSUCCESSFUL [], STATUS_UNSUCCESSFUL),
      (\<lparr>Handle = 9, RetrieveOutputBufferStatus = STATUS_SUCCESS, OutputBuffer = [4, 5],
         Information = 2\<rparr>, STATUS_SUCCESS)]" by simp
  with C show ?thesis by (simp add: sample_world_def)
qed

subsection \<open>One completion for each dequeued request\<close>

text \<open>
  Claim C5. In a pass of \<^verbatim>\<open>SendHidReports\<close> the requests taken from the queue are a
  prefix \<open>dequeued\<close> of it, and the completions added are, position by position, on
  exactly these requests: one completion for each dequeued request, none without one
  and none with two. Each completion is either a success on the request with its buffer
  filled, or a failure status on the request as it was.
\<close>

theorem dispatch_single_completion:
  assumes w': "w' = SendHidReports env q reports n w"
  shows "\<exists>dequeued cs.
           Queues w q = dequeued @ Queues w' q \<and>
           Completed w' = Completed w @ cs \<and>
           map (Handle \<circ> fst) cs = map Handle dequeued \<and>
           (\<forall>j < length cs.
              (NT_SUCCESS (snd (cs ! j)) \<and> fst (cs ! j) = filled env reports j (dequeued ! j)) \<or>
              (\<not> NT_SUCCESS (snd (cs ! j)) \<and> fst (cs ! j) = dequeued ! j))"
proof -
  let ?p = "Queues w q"
  let ?dq = "take (nat n) ?p"
  let ?cs = "map (\<lambda>(j, r). completion_of env reports j r) (zip [0 ..< nat n] ?p)"
  have Q: "?p = ?dq @ Queues w' q"
    unfolding w' SendHidReports_Queues by simp
  have C: "Completed w' = Completed w @ ?cs"
    unfolding w' by (rule SendHidReports_Completed)
  have H: "map (Handle \<circ> fst) ?cs = map Handle ?dq"
    by (rule map_Handle_completions)
  have E: "(NT_SUCCESS (snd (?cs ! j)) \<and> fst (?cs ! j) = filled env reports j (?dq ! j)) \<or>
           (\<not> NT_SUCCESS (snd (?cs ! j)) \<and> fst (?cs ! j) = ?dq ! j)" if "j < length ?cs" for j
  proof -
    from that have j: "j < min (nat n) (length ?p)" by simp
    have "?cs ! j = completion_of env reports j (?p ! j)"
      by (rule completions_nth [OF j])
    moreover have "?dq ! j = ?p ! j" using j by simp
    ultimately show ?thesis using completion_of_cases [of env reports j "?p ! j"] by simp
  qed
  from Q C H E show ?thesis by blast
qed

theorem dispatch_single_completion_witness:
  "Queues (SendHidReports (sample_env STATUS_SUCCESS 1) 0 (\<lambda>a. of_nat a) 1
      (sample_world [sample_request 7 STATUS_SUCCESS [9], sample_request 8 STATUS_SUCCESS [6, 6]])) 0 =
     [sample_request 8 STATUS_SUCCESS [6, 6]] \<and>
   map (Handle \<circ> fst) (Completed (SendHidReports (sample_env STATUS_SUCCESS 1) 0 (\<lambda>a. of_nat a) 1
      (sample_world [sample_request 7 STATUS_SUCCESS [9], sample_request 8 STATUS_SUCCESS [6, 6]]))) = [7]"
proof -
  let ?env = "sample_env STATUS_SUCCESS 1"
  let ?w = "sample_world [sample_request 7 STATUS_SUCCESS [9], sample_request 8 STATUS_SUCCESS [6, 6]]"
  let ?w' = "SendHidReports ?env 0 (\<lambda>a. of_nat a) 1 ?w"
  have Q': "Queues ?w' 0 = [sample_request 8 STATUS_SUCCESS [6, 6]]"
    by (simp add: SendHidReports_Queues sample_defs)
  from dispatch_single_completion [OF refl, where env = ?env and q = 0 and reports = "\<lambda>a. of_nat a" and n = 1 and w = ?w]
  obtain dequeued cs where Q: "Queues ?w 0 = dequeued @ Queues ?w' 0"
    and C: "Completed ?w' = Completed ?w @ cs"
    and H: "map (Handle \<circ> fst) cs = map Handle dequeued"
    by blast
  from Q have "dequeued = [sample_request 7 STATUS_SUCCESS [9]]"
    unfolding Q' by (simp add: sample_world_def)
  with H C have "map (Handle \<circ> fst) (Completed ?w') = [7]"
    by (simp add: sample_defs)
  with Q' show ?thesis by simp
qed

subsection \<open>The interrupt routine and the service-on-entry flag\<close>

text \<open>
  Claim C10. \<^verbatim>\<open>OnInterruptIsr\<close> neither reads nor writes
  \<open>ServiceInterruptsAfterD0Entry\<close>: run on a device context that differs only in the
  value of the flag, it returns the same result and leaves the same world (the same
  calls, queues, completions and trace), but for that value of the flag; and the flag
  is the same after the routine as before.
\<close>

theorem isr_ignores_service_flag:
  "OnInterruptIsr env (w\<lparr>Dev := (Dev w)\<lparr>ServiceInterruptsAfterD0Entry := b\<rparr>\<rparr>) =
     (fst (OnInterruptIsr env w),
      (snd (OnInterruptIsr env w))
        \<lparr>Dev := (Dev (snd (OnInterruptIsr env w)))\<lparr>ServiceInterruptsAfterD0Entry := b\<rparr>\<rparr>) \<and>
   ServiceInterruptsAfterD0Entry (Dev (snd (OnInterruptIsr env w))) =
     ServiceInterruptsAfterD0Entry (Dev w)"
proof -
  obtain status reports n touch i2c where
    svc: "TchServiceInterrupts env (TouchContext (Dev w)) (I2CContext (Dev w)) (InputMode (Dev w)) =
            (status, reports, n, touch, i2c)"
    by (metis prod_cases5)
  let ?wb = "w\<lparr>Dev := (Dev w)\<lparr>ServiceInterruptsAfterD0Entry := b\<rparr>\<rparr>"
  have svcb: "TchServiceInterrupts env (TouchContext (Dev ?wb)) (I2CContext (Dev ?wb)) (InputMode (Dev ?wb)) =
            (status, reports, n, touch, i2c)"
    using svc by simp
  show ?thesis
  proof (cases "NT_SUCCESS status")
    case True
    show ?thesis
      by (simp add: OnInterruptIsr_success [OF svc True] OnInterruptIsr_success [OF svcb True]
          SendHidReports_char)
  next
    case False
    show ?thesis
      by (simp add: OnInterruptIsr_failure [OF svc False] OnInterruptIsr_failure [OF svcb False])
  qed
qed

theorem isr_ignores_service_flag_witness:
  "OnInterruptIsr (sample_env STATUS_SUCCESS 1)
      ((sample_world [sample_request 7 STATUS_SUCCESS [9, 9]])
         \<lparr>Dev := sample_dev\<lparr>ServiceInterruptsAfterD0Entry := True\<rparr>\<rparr>) =
    (fst (OnInterruptIsr (sample_env STATUS_SUCCESS 1)
            (sample_world [sample_request 7 STATUS_SUCCESS [9, 9]])),
     (snd (OnInterruptIsr (sample_env STATUS_SUCCESS 1)
            (sample_world [sample_request 7 STATUS_SUCCESS [9, 9]])))
       \<lparr>Dev := sample_dev\<lparr>ServiceInterruptsAfterD0Entry := True\<rparr>\<rparr>) \<and>
   ServiceInterruptsAfterD0Entry (Dev (snd (OnInterruptIsr (sample_env STATUS_SUCCESS 1)
            (sample_world [sample_request 7 STATUS_SUCCESS [9, 9]])))) = False"
proof -
  let ?env = "sample_env STATUS_SUCCESS 1"
  let ?w = "sample_world [sample_request 7 STATUS_SUCCESS [9, 9]]"
  have D: "Dev ?w = sample_dev" by (simp add: sample_world_def)
  have svc: "TchServiceInterrupts ?env (TouchContext (Dev ?w)) (I2CContext (Dev ?w)) (InputMode (Dev ?w)) =
      (STATUS_SUCCESS, (\<lambda>a. of_nat a), 1, (), I2CContext sample_dev)"
    by (simp add: sample_defs)
  have D': "Dev (snd (OnInterruptIsr ?env ?w)) = sample_dev"
    by (simp add: OnInterruptIsr_success [OF svc NT_SUCCESS_consts(1)] SendHidReports_char)
       (simp add: sample_defs)
  have F: "ServiceInterruptsAfterD0Entry sample_dev = False" by (simp add: sample_dev_def)
  show ?thesis
    using isr_ignores_service_flag [where env = ?env and w = ?w and b = True] unfolding D D' F by simp
qed

subsection \<open>The resource loop\<close>

lemma serial_i2c_not_gpio_io: "is_serial_i2c res \<Longrightarrow> \<not> is_gpio_io res"
  by (simp add: is_serial_i2c_def is_gpio_io_def CM_RESOURCE_CONNECTION_CLASS_SERIAL_def
      CM_RESOURCE_CONNECTION_CLASS_GPIO_def)

lemma large_integer_update:
  "(x::large_integer)\<lparr>LowPart := a, HighPart := b\<rparr> = \<lparr>LowPart = a, HighPart = b\<rparr>"
  by (cases x) simp

lemma OnPrepareHardware_loop_append:
  "OnPrepareHardware_loop (xs @ ys) st = OnPrepareHardware_loop ys (OnPrepareHardware_loop xs st)"
proof (induction xs arbitrary: st)
  case Nil
  show ?case by (cases st) simp
next
  case (Cons x xs)
  show ?case by (cases st) (simp add: Cons.IH Let_def split: prod.splits)
qed

lemma OnPrepareHardware_loop_single:
  "OnPrepareHardware_loop [res] (status, dev) =
     (if is_serial_i2c res then
        (STATUS_SUCCESS, dev\<lparr>I2CContext := (I2CContext dev)\<lparr>I2cResHubId := connection_id res\<rparr>\<rparr>)
      else if is_gpio_io res then
        (status, dev\<lparr>ResetGpioId := connection_id res, HasResetGpio := True\<rparr>)
      else (status, dev))"
  by (auto simp: Let_def large_integer_update connection_id_def dest: serial_i2c_not_gpio_io)

lemma OnPrepareHardware_loop_char:
  "OnPrepareHardware_loop res (status, dev) =
     (if filter is_serial_i2c res = [] then status else STATUS_SUCCESS,
      dev\<lparr>I2CContext := (I2CContext dev)
             \<lparr>I2cResHubId := (if filter is_serial_i2c res = [] then I2cResHubId (I2CContext dev)
                               else connection_id (last (filter is_serial_i2c res)))\<rparr>,
          ResetGpioId := (if filter is_gpio_io res = [] then ResetGpioId dev
                          else connection_id (last (filter is_gpio_io res))),
          HasResetGpio := (HasResetGpio dev \<or> filter is_gpio_io res \<noteq> [])\<rparr>)"
proof (induction res rule: rev_induct)
  case Nil
  show ?case by simp
next
  case (snoc x xs)
  show ?case
    unfolding OnPrepareHardware_loop_append snoc.IH
    by (auto simp add: OnPrepareHardware_loop_single simp del: OnPrepareHardware_loop.simps dest: serial_i2c_not_gpio_io)
qed

lemma OnPrepareHardware_status:
  "fst (OnPrepareHardware env res w) =
     prepare_status env (fst (OnPrepareHardware_loop res (STATUS_INSUFFICIENT_RESOURCES, Dev w)))
       (TouchContext (snd (OnPrepareHardware_loop res (STATUS_INSUFFICIENT_RESOURCES, Dev w))))
       (I2CContext (snd (OnPrepareHardware_loop res (STATUS_INSUFFICIENT_RESOURCES, Dev w))))"
  by (simp add: OnPrepareHardware_def prepare_status_def Let_def call_SpbTargetInitialize_def
      call_TchAllocateContext_def call_TchStartDevice_def split_def)

lemma OnPrepareHardware_no_i2c:
  assumes "filter is_serial_i2c res = []"
  shows "OnPrepareHardware env res w =
     (STATUS_INSUFFICIENT_RESOURCES,
      w\<lparr>Dev := snd (OnPrepareHardware_loop res (STATUS_INSUFFICIENT_RESOURCES, Dev w)),
        TraceLog := TraceLog w @ [ErrorFindingConnection STATUS_INSUFFICIENT_RESOURCES]\<rparr>)"
  using assms
  by (simp add: OnPrepareHardware_def OnPrepareHardware_loop_char NT_SUCCESS_consts Trace_def)

lemma OnPrepareHardware_i2c_calls:
  assumes "filter is_serial_i2c res \<noteq> []"
  shows "\<exists>cs. Calls (snd (OnPrepareHardware env res w)) = Calls w @ CallSpbTargetInitialize # cs"
  using assms
  by (simp add: OnPrepareHardware_def OnPrepareHardware_loop_char NT_SUCCESS_consts Trace_def Let_def
      call_SpbTargetInitialize_def call_TchAllocateContext_def call_TchStartDevice_def
      split_def)

lemma OnPrepareHardware_gpio_fields:
  "ResetGpioId (Dev (snd (OnPrepareHardware env res w))) =
     ResetGpioId (snd (OnPrepareHardware_loop res (STATUS_INSUFFICIENT_RESOURCES, Dev w))) \<and>
   HasResetGpio (Dev (snd (OnPrepareHardware env res w))) =
     HasResetGpio (snd (OnPrepareHardware_loop res (STATUS_INSUFFICIENT_RESOURCES, Dev w)))"
  by (simp add: OnPrepareHardware_def Trace_def Let_def
      call_SpbTargetInitialize_def call_TchAllocateContext_def call_TchStartDevice_def
      split_def)

lemma filter_i2c_without_gpio:
  "filter is_serial_i2c (filter (\<lambda>d. \<not> is_gpio_io d) res) = filter is_serial_i2c res"
  by (induction res) (auto dest: serial_i2c_not_gpio_io)

lemma descriptor_classes:
  "is_serial_i2c (i2c_descriptor lo hi)" "\<not> is_gpio_io (i2c_descriptor lo hi)"
  "is_gpio_io (gpio_descriptor lo hi)" "\<not> is_serial_i2c (gpio_descriptor lo hi)"
  "\<not> is_serial_i2c interrupt_descriptor" "\<not> is_gpio_io interrupt_descriptor"
  by (simp_all add: is_serial_i2c_def is_gpio_io_def i2c_descriptor_def gpio_descriptor_def
      interrupt_descriptor_def CmResourceTypeConnection_def
      CM_RESOURCE_CONNECTION_CLASS_SERIAL_def CM_RESOURCE_CONNECTION_CLASS_GPIO_def
      CM_RESOURCE_CONNECTION_TYPE_SERIAL_I2C_def CM_RESOURCE_CONNECTION_TYPE_GPIO_IO_def)

lemma connection_id_descriptors:
  "connection_id (i2c_descriptor lo hi) = \<lparr>LowPart = lo, HighPart = hi\<rparr>"
  "connection_id (gpio_descriptor lo hi) = \<lparr>LowPart = lo, HighPart = hi\<rparr>"
  by (simp_all add: connection_id_def i2c_descriptor_def gpio_descriptor_def)

subsection \<open>Release of the hardware\<close>

text \<open>
  Claim C6, as stated, fails: when \<^verbatim>\<open>TchStopDevice\<close> fails and \<^verbatim>\<open>TchFreeContext\<close>
  succeeds, all three teardown steps are made, the first status that is not a success is
  the one of \<^verbatim>\<open>TchStopDevice\<close>, and \<^verbatim>\<open>OnReleaseHardware\<close> returns
  \<^verbatim>\<open>STATUS_SUCCESS\<close>.
\<close>

theorem release_hardware_first_failure_counterexample:
  "\<not> NT_SUCCESS (fst (TchStopDevice (sample_env STATUS_UNSUCCESSFUL 0)
        (TouchContext (Dev (sample_world []))) (I2CContext (Dev (sample_world []))))) \<and>
   fst (TchStopDevice (sample_env STATUS_UNSUCCESSFUL 0)
        (TouchContext (Dev (sample_world []))) (I2CContext (Dev (sample_world [])))) =
     STATUS_UNSUCCESSFUL \<and>
   Calls (snd (OnReleaseHardware (sample_env STATUS_UNSUCCESSFUL 0) (sample_world []))) =
     [CallTchStopDevice, CallTchFreeContext, CallSpbTargetDeinitialize] \<and>
   fst (OnReleaseHardware (sample_env STATUS_UNSUCCESSFUL 0) (sample_world [])) = STATUS_SUCCESS \<and>
   STATUS_SUCCESS \<noteq> STATUS_UNSUCCESSFUL"
  by (simp add: OnReleaseHardware_def call_TchStopDevice_def call_TchFreeContext_def
      call_SpbTargetDeinitialize_def Trace_def sample_defs NT_SUCCESS_consts Let_def
      STATUS_SUCCESS_def STATUS_UNSUCCESSFUL_def NT_SUCCESS_def)

text \<open>
  Claim C6, amended. \<^verbatim>\<open>OnReleaseHardware\<close> makes the three teardown calls, in the order
  stop, free, deinitialize, whatever their statuses; it returns the status of
  \<^verbatim>\<open>TchFreeContext\<close>, the last status assigned. A failure of \<^verbatim>\<open>TchStopDevice\<close> is
  traced and not returned.
\<close>

theorem release_hardware_returns_free_status:
  "Calls (snd (OnReleaseHardware env w)) =
     Calls w @ [CallTchStopDevice, CallTchFreeContext, CallSpbTargetDeinitialize] \<and>
   fst (OnReleaseHardware env w) =
     fst (TchFreeContext env
            (fst (snd (TchStopDevice env (TouchContext (Dev w)) (I2CContext (Dev w)))))) \<and>
   TraceLog (snd (OnReleaseHardware env w)) =
     TraceLog w @
     (if NT_SUCCESS (fst (TchStopDevice env (TouchContext (Dev w)) (I2CContext (Dev w)))) then []
      else [ErrorStoppingDevice (fst (TchStopDevice env (TouchContext (Dev w)) (I2CContext (Dev w))))]) @
     (if NT_SUCCESS (fst (OnReleaseHardware env w)) then []
      else [ErrorFreeingTouchContext (fst (OnReleaseHardware env w))])"
  by (simp add: OnReleaseHardware_def call_TchStopDevice_def call_TchFreeContext_def
      call_SpbTargetDeinitialize_def Trace_def Let_def split_def)

theorem release_hardware_returns_free_status_witness:
  "Calls (snd (OnReleaseHardware (sample_env STATUS_UNSUCCESSFUL 0) (sample_world []))) =
     [CallTchStopDevice, CallTchFreeContext, CallSpbTargetDeinitialize] \<and>
   fst (OnReleaseHardware (sample_env STATUS_UNSUCCESSFUL 0) (sample_world [])) = STATUS_SUCCESS \<and>
   TraceLog (snd (OnReleaseHardware (sample_env STATUS_UNSUCCESSFUL 0) (sample_world []))) =
     [ErrorStoppingDevice STATUS_UNSUCCESSFUL]"
proof -
  let ?env = "sample_env STATUS_UNSUCCESSFUL 0"
  let ?w = "sample_world []"
  have s: "TchStopDevice ?env (TouchContext (Dev ?w)) (I2CContext (Dev ?w)) =
      (STATUS_UNSUCCESSFUL, (), I2CContext sample_dev)"
    by (simp add: sample_defs)
  have f: "TchFreeContext ?env () = (STATUS_SUCCESS, ())" by (simp add: sample_env_def)
  from release_hardware_returns_free_status [where env = ?env and w = ?w]
  have c1: "Calls (snd (OnReleaseHardware ?env ?w)) =
            Calls ?w @ [CallTchStopDevice, CallTchFreeContext, CallSpbTargetDeinitialize]"
    and c2: "fst (OnReleaseHardware ?env ?w) = STATUS_SUCCESS"
    and c3: "TraceLog (snd (OnReleaseHardware ?env ?w)) =
     TraceLog ?w @
     (if NT_SUCCESS (fst (TchStopDevice ?env (TouchContext (Dev ?w)) (I2CContext (Dev ?w)))) then []
      else [ErrorStoppingDevice (fst (TchStopDevice ?env (TouchContext (Dev ?w)) (I2CContext (Dev ?w))))]) @
     (if NT_SUCCESS (fst (OnReleaseHardware ?env ?w)) then []
      else [ErrorFreeingTouchContext (fst (OnReleaseHardware ?env ?w))])"
    by (simp_all add: s f)
  from c3 have c3': "TraceLog (snd (OnReleaseHardware ?env ?w)) = [ErrorStoppingDevice STATUS_UNSUCCESSFUL]"
    unfolding c2 s by (simp add: NT_SUCCESS_consts sample_world_def)
  from c1 c2 c3' show ?thesis by (simp add: sample_world_def)
qed

subsection \<open>Preparation of the hardware\<close>

text \<open>
  Claim C7. \<^verbatim>\<open>OnPrepareHardware\<close> returns \<^verbatim>\<open>STATUS_INSUFFICIENT_RESOURCES\<close> without
  any call to the bus layer or the touch engine if and only if the list has no
  Serial/I2C connection descriptor, and then the touch and bus contexts are as they
  were. The GPIO descriptors have no part in the status: the list without them gives the
  same status. When the list has a GPIO I/O descriptor, the device context ends with
  \<open>HasResetGpio\<close> TRUE and the ID of that descriptor (of the last one, if several) in
  \<open>ResetGpioId\<close>.
\<close>

theorem prepare_hardware_missing_i2c:
  assumes r: "r = OnPrepareHardware env res w"
  shows "((fst r = STATUS_INSUFFICIENT_RESOURCES \<and> Calls (snd r) = Calls w) \<longleftrightarrow>
            filter is_serial_i2c res = []) \<and>
         (filter is_serial_i2c res = [] \<longrightarrow>
            TouchContext (Dev (snd r)) = TouchContext (Dev w) \<and>
            I2CContext (Dev (snd r)) = I2CContext (Dev w)) \<and>
         fst (OnPrepareHardware env (filter (\<lambda>d. \<not> is_gpio_io d) res) w) = fst r \<and>
         (filter is_gpio_io res \<noteq> [] \<longrightarrow>
            HasResetGpio (Dev (snd r)) = True \<and>
            ResetGpioId (Dev (snd r)) = connection_id (last (filter is_gpio_io res)))"
proof -
  have A: "(fst r = STATUS_INSUFFICIENT_RESOURCES \<and> Calls (snd r) = Calls w) \<longleftrightarrow>
            filter is_serial_i2c res = []"
  proof (cases "filter is_serial_i2c res = []")
    case True
    then show ?thesis unfolding r OnPrepareHardware_no_i2c [OF True] by simp
  next
    case False
    from OnPrepareHardware_i2c_calls [OF False, of env w]
    have "Calls (snd r) \<noteq> Calls w" unfolding r by auto
    with False show ?thesis by simp
  qed
  have B: "filter is_serial_i2c res = [] \<longrightarrow>
            TouchContext (Dev (snd r)) = TouchContext (Dev w) \<and>
            I2CContext (Dev (snd r)) = I2CContext (Dev w)"
  proof
    assume n: "filter is_serial_i2c res = []"
    show "TouchContext (Dev (snd r)) = TouchContext (Dev w) \<and>
            I2CContext (Dev (snd r)) = I2CContext (Dev w)"
      unfolding r OnPrepareHardware_no_i2c [OF n] by (simp add: OnPrepareHardware_loop_char n)
  qed
  have C: "fst (OnPrepareHardware env (filter (\<lambda>d. \<not> is_gpio_io d) res) w) = fst r"
    unfolding r OnPrepareHardware_status OnPrepareHardware_loop_char filter_i2c_without_gpio by simp
  have D: "filter is_gpio_io res \<noteq> [] \<longrightarrow>
            HasResetGpio (Dev (snd r)) = True \<and>
            ResetGpioId (Dev (snd r)) = connection_id (last (filter is_gpio_io res))"
    unfolding r using OnPrepareHardware_gpio_fields [of env res w]
    by (simp add: OnPrepareHardware_loop_char)
  from A B C D show ?thesis by blast
qed

theorem prepare_hardware_missing_i2c_witness:
  "fst (OnPrepareHardware (sample_env STATUS_SUCCESS 0) [gpio_descriptor 3 4] (sample_world [])) =
     STATUS_INSUFFICIENT_RESOURCES \<and>
   Calls (snd (OnPrepareHardware (sample_env STATUS_SUCCESS 0) [gpio_descriptor 3 4]
     (sample_world []))) = [] \<and>
   HasResetGpio (Dev (snd (OnPrepareHardware (sample_env STATUS_SUCCESS 0) [gpio_descriptor 3 4]
     (sample_world [])))) = True \<and>
   ResetGpioId (Dev (snd (OnPrepareHardware (sample_env STATUS_SUCCESS 0) [gpio_descriptor 3 4]
     (sample_world [])))) = \<lparr>LowPart = 3, HighPart = 4\<rparr> \<and>
   fst (OnPrepareHardware (sample_env STATUS_SUCCESS 0) [i2c_descriptor 1 2] (sample_world [])) =
     fst (OnPrepareHardware (sample_env STATUS_SUCCESS 0) [gpio_descriptor 3 4, i2c_descriptor 1 2]
            (sample_world []))"
proof -
  let ?res = "[gpio_descriptor 3 4]"
  let ?res2 = "[gpio_descriptor 3 4, i2c_descriptor 1 2]"
  have n: "filter (\<lambda>d. \<not> is_gpio_io d) ?res2 = [i2c_descriptor 1 2]"
    by (simp add: descriptor_classes)
  from prepare_hardware_missing_i2c [OF refl, where res = ?res2
      and env = "sample_env STATUS_SUCCESS 0" and w = "sample_world []"]
  have second: "fst (OnPrepareHardware (sample_env STATUS_SUCCESS 0) [i2c_descriptor 1 2] (sample_world [])) =
     fst (OnPrepareHardware (sample_env STATUS_SUCCESS 0) ?res2 (sample_world []))"
    unfolding n by blast
  have i: "filter is_serial_i2c ?res = []" by (simp add: descriptor_classes)
  have g: "filter is_gpio_io ?res = [gpio_descriptor 3 4]" by (simp add: descriptor_classes)
  from prepare_hardware_missing_i2c [OF refl, where res = ?res
      and env = "sample_env STATUS_SUCCESS 0" and w = "sample_world []"]
  have "fst (OnPrepareHardware (sample_env STATUS_SUCCESS 0) ?res (sample_world [])) =
     STATUS_INSUFFICIENT_RESOURCES \<and>
   Calls (snd (OnPrepareHardware (sample_env STATUS_SUCCESS 0) ?res (sample_world []))) = [] \<and>
   HasResetGpio (Dev (snd (OnPrepareHardware (sample_env STATUS_SUCCESS 0) ?res
     (sample_world [])))) = True \<and>
   ResetGpioId (Dev (snd (OnPrepareHardware (sample_env STATUS_SUCCESS 0) ?res
     (sample_world [])))) = \<lparr>LowPart = 3, HighPart = 4\<rparr>"
    unfolding i g by (simp add: connection_id_descriptors sample_world_def)
  with second show ?thesis by blast
qed

text \<open>
  Claim C8. After the resource loop, the bus ID of the device context is the
  connection ID of the last Serial/I2C descriptor of the list, and the reset GPIO ID is
  that of the last GPIO I/O descriptor. Descriptors of no recognised class are ignored:
  the list without them gives the same result. The descriptors are processed in list
  order: the loop over a list \<open>xs @ ys\<close> is the loop over \<open>ys\<close> started from the result
  of the loop over \<open>xs\<close>.
\<close>

theorem resolver_last_wins:
  assumes dev': "dev' = snd (OnPrepareHardware_loop res (status, dev))"
  shows "(filter is_serial_i2c res \<noteq> [] \<longrightarrow>
            I2cResHubId (I2CContext dev') = connection_id (last (filter is_serial_i2c res))) \<and>
         (filter is_gpio_io res \<noteq> [] \<longrightarrow>
            ResetGpioId dev' = connection_id (last (filter is_gpio_io res))) \<and>
         OnPrepareHardware_loop (filter (\<lambda>r. is_serial_i2c r \<or> is_gpio_io r) res) (status, dev) =
           OnPrepareHardware_loop res (status, dev) \<and>
         (\<forall>xs ys. res = xs @ ys \<longrightarrow>
            OnPrepareHardware_loop res (status, dev) =
              OnPrepareHardware_loop ys (OnPrepareHardware_loop xs (status, dev)))"
proof -
  have f1: "filter is_serial_i2c (filter (\<lambda>r. is_serial_i2c r \<or> is_gpio_io r) res) =
            filter is_serial_i2c res"
    by (induction res) auto
  have f2: "filter is_gpio_io (filter (\<lambda>r. is_serial_i2c r \<or> is_gpio_io r) res) =
            filter is_gpio_io res"
    by (induction res) auto
  have A: "filter is_serial_i2c res \<noteq> [] \<longrightarrow>
            I2cResHubId (I2CContext dev') = connection_id (last (filter is_serial_i2c res))"
    unfolding dev' OnPrepareHardware_loop_char by simp
  have B: "filter is_gpio_io res \<noteq> [] \<longrightarrow>
            ResetGpioId dev' = connection_id (last (filter is_gpio_io res))"
    unfolding dev' OnPrepareHardware_loop_char by simp
  have C: "OnPrepareHardware_loop (filter (\<lambda>r. is_serial_i2c r \<or> is_gpio_io r) res) (status, dev) =
           OnPrepareHardware_loop res (status, dev)"
    unfolding OnPrepareHardware_loop_char f1 f2 by simp
  have D: "\<forall>xs ys. res = xs @ ys \<longrightarrow>
            OnPrepareHardware_loop res (status, dev) =
              OnPrepareHardware_loop ys (OnPrepareHardware_loop xs (status, dev))"
    by (simp add: OnPrepareHardware_loop_append)
  from A B C D show ?thesis by blast
qed

theorem resolver_last_wins_witness:
  "I2cResHubId (I2CContext (snd (OnPrepareHardware_loop
      [i2c_descriptor 1 2, interrupt_descriptor, gpio_descriptor 3 4, i2c_descriptor 5 6,
       gpio_descriptor 7 8]
      (STATUS_INSUFFICIENT_RESOURCES, sample_dev)))) = \<lparr>LowPart = 5, HighPart = 6\<rparr> \<and>
   ResetGpioId (snd (OnPrepareHardware_loop
      [i2c_descriptor 1 2, interrupt_descriptor, gpio_descriptor 3 4, i2c_descriptor 5 6,
       gpio_descriptor 7 8]
      (STATUS_INSUFFICIENT_RESOURCES, sample_dev))) = \<lparr>LowPart = 7, HighPart = 8\<rparr>"
proof -
  let ?res = "[i2c_descriptor 1 2, interrupt_descriptor, gpio_descriptor 3 4, i2c_descriptor 5 6,
       gpio_descriptor 7 8]"
  have i: "filter is_serial_i2c ?res = [i2c_descriptor 1 2, i2c_descriptor 5 6]"
    by (simp add: descriptor_classes)
  have g: "filter is_gpio_io ?res = [gpio_descriptor 3 4, gpio_descriptor 7 8]"
    by (simp add: descriptor_classes)
  from resolver_last_wins [OF refl, where res = ?res and status = STATUS_INSUFFICIENT_RESOURCES
      and dev = sample_dev]
  show ?thesis unfolding i g by (simp add: connection_id_descriptors)
qed

subsection \<open>Entry to D0\<close>

text \<open>
  Claim C9. \<^verbatim>\<open>OnD0Entry\<close> returns the status of \<^verbatim>\<open>TchWakeDevice\<close>, and whether that
  status is a success or not it makes the two calls, wake and then idle completion, and
  hands to the idle coordinator a device context in which
  \<open>ServiceInterruptsAfterD0Entry\<close> is TRUE. The flag is therefore TRUE when
  \<^verbatim>\<open>OnD0Entry\<close> returns, provided the idle coordinator leaves it alone.
\<close>

theorem d0_entry_sets_flag:
  "fst (OnD0Entry env w) = fst (TchWakeDevice env (TouchContext (Dev w)) (I2CContext (Dev w))) \<and>
   Calls (snd (OnD0Entry env w)) = Calls w @ [CallTchWakeDevice, CallTchCompleteIdleIrp] \<and>
   Dev (snd (OnD0Entry env w)) =
     TchCompleteIdleIrp env
       ((Dev w)\<lparr>TouchContext :=
                  fst (snd (TchWakeDevice env (TouchContext (Dev w)) (I2CContext (Dev w)))),
                I2CContext :=
                  snd (snd (TchWakeDevice env (TouchContext (Dev w)) (I2CContext (Dev w)))),
                ServiceInterruptsAfterD0Entry := True\<rparr>) \<and>
   ((\<forall>devContext. ServiceInterruptsAfterD0Entry (TchCompleteIdleIrp env devContext) =
                   ServiceInterruptsAfterD0Entry devContext) \<longrightarrow>
      ServiceInterruptsAfterD0Entry (Dev (snd (OnD0Entry env w))) = True)"
  by (simp add: OnD0Entry_def call_TchWakeDevice_def call_TchCompleteIdleIrp_def Trace_def
      Let_def split_def)

theorem d0_entry_sets_flag_witness:
  "fst (OnD0Entry (sample_env STATUS_UNSUCCESSFUL 0) (sample_world [])) = STATUS_UNSUCCESSFUL \<and>
   Calls (snd (OnD0Entry (sample_env STATUS_UNSUCCESSFUL 0) (sample_world []))) =
     [CallTchWakeDevice, CallTchCompleteIdleIrp] \<and>
   ServiceInterruptsAfterD0Entry
     (Dev (snd (OnD0Entry (sample_env STATUS_UNSUCCESSFUL 0) (sample_world [])))) = True \<and>
   ServiceInterruptsAfterD0Entry (Dev (sample_world [])) = False"
proof -
  let ?env = "sample_env STATUS_UNSUCCESSFUL 0"
  let ?w = "sample_world []"
  have wk: "TchWakeDevice ?env (TouchContext (Dev ?w)) (I2CContext (Dev ?w)) =
      (STATUS_UNSUCCESSFUL, (), I2CContext sample_dev)"
    by (simp add: sample_defs)
  have idle: "\<forall>devContext. ServiceInterruptsAfterD0Entry (TchCompleteIdleIrp ?env devContext) =
                   ServiceInterruptsAfterD0Entry devContext"
    by (simp add: sample_env_def)
  from d0_entry_sets_flag [where env = ?env and w = ?w] idle
  have "fst (OnD0Entry ?env ?w) = STATUS_UNSUCCESSFUL"
    "Calls (snd (OnD0Entry ?env ?w)) = Calls ?w @ [CallTchWakeDevice, CallTchCompleteIdleIrp]"
    "ServiceInterruptsAfterD0Entry (Dev (snd (OnD0Entry ?env ?w))) = True"
    unfolding wk by simp_all
  then show ?thesis by (simp add: sample_world_def sample_dev_def)
qed

end
